theory Spec2Isabelle
  imports Complex_Main "HOL-Library.Sublist"
begin

section \<open>The Kujira CLOB data source: data model\<close>

text \<open>
  A shallow embedding of \<^verbatim>\<open>KujiraAPIDataSource\<close>
  (\<^verbatim>\<open>kujira_api_data_source.py\<close>). Every method becomes a function of the data source's
  state that returns the new state; every \<^verbatim>\<open>raise\<close> is an \<open>Inl\<close> result; the
  Gateway, the clock and the helpers of modules that are not part of the file are read
  from a record of functions, the \<open>world\<close>. Each request sent to the Gateway is
  appended to a log kept in the state, so that "no Gateway call" and "refresh first" are
  statements about that log. One method call is modelled as running alone: the
  interleaving of concurrent tasks is outside the model.
\<close>

subsection \<open>Exceptions\<close>

datatype exn_class =
  Exception | RuntimeError | KeyError | IndexError | AttributeError | TimeoutError
  | InvalidOperation | GatewayError

text \<open>
  An exception is its class and its message, the one element of \<^verbatim>\<open>exception.args\<close>
  (the empty text for an exception built without arguments).
\<close>

datatype exn = Exn (exn_class: exn_class) (args_text: string)

text \<open>
  \<^verbatim>\<open>'No orders with the specified information exist' in str(exception.args)\<close>.
  \<^verbatim>\<open>str\<close> of the argument tuple puts the message between quotes and parentheses and
  escapes quotes, backslashes and unprintable characters; the marker is made of letters
  and spaces only, so it occurs in that text exactly when it occurs in the message.
\<close>

definition order_not_found_marker :: string where
  "order_not_found_marker = ''No orders with the specified information exist''"

definition marker_in_args :: "exn \<Rightarrow> bool" where
  "marker_in_args e = sublist order_not_found_marker (args_text e)"

subsection \<open>Orders, markets and results\<close>

text \<open>
  Modelled from the spec: the order-state enum of \<^verbatim>\<open>hummingbot.core.data_type.in_flight_order\<close>
  (not part of the file), with the states of the spec's state machine.
\<close>

datatype OrderState = PENDING_CREATE | OPEN | CANCELED | FILLED

datatype TradeType = BUY | SELL

datatype OrderType = LIMIT | MARKET | LIMIT_MAKER

text \<open>
  \<^verbatim>\<open>GatewayInFlightOrder\<close>, with the attributes the data source reads or writes. Prices
  and sizes are \<^verbatim>\<open>Decimal\<close>s: the type \<open>'d\<close>, of which only its multiplication is used.
  An order object handed to a method is modelled by its value, and the method returns
  the value the object has afterwards. The tracker's maps hold values too and no method
  writes them: when the object handed in is the tracker's own, what the method writes on
  it is read from the returned order, not from the tracker's map in the returned data
  source.
\<close>

record 'd GatewayInFlightOrder =
  client_order_id :: string
  exchange_order_id :: "string option"
  trading_pair :: string
  order_type :: OrderType
  trade_type :: TradeType
  price :: 'd
  amount :: 'd
  current_state :: OrderState
  creation_transaction_hash :: "string option"
  cancel_tx_hash :: "string option"

text \<open>
  A market record of the Gateway, with the fields the data source reads, and the
  \<^verbatim>\<open>hb_trading_pair\<close> entry that \<^verbatim>\<open>_update_markets\<close> adds.
\<close>

record Market =
  market_name :: string
  quoteToken_symbol :: string
  fees_taker :: string
  hb_trading_pair :: "string option"

text \<open>
  The elements of \<^verbatim>\<open>orders_to_create\<close>: the list starts as \<^verbatim>\<open>[in_flight_order]\<close>, the
  imported module itself, and receives one \<^verbatim>\<open>InFlightOrder\<close> per input order.
\<close>

record 'd InFlightOrder =
  cand_amount :: 'd
  cand_client_order_id :: string
  cand_creation_timestamp :: real
  cand_order_type :: OrderType
  cand_trade_type :: TradeType
  cand_trading_pair :: "string option"

datatype 'd candidate = InFlightOrderModule | Candidate "'d InFlightOrder"

text \<open>
  The elements of \<^verbatim>\<open>orders_to_cancel\<close>: order objects in \<^verbatim>\<open>batch_order_cancel\<close>,
  venue ids in \<^verbatim>\<open>cancel_all_orders\<close>.
\<close>

datatype 'd cancel_target = CancelOrder "'d GatewayInFlightOrder" | CancelId string

type_synonym misc_updates = "(string \<times> string option) list"

record PlaceOrderResult =
  por_update_timestamp :: real
  por_client_order_id :: string
  por_exchange_order_id :: string
  por_trading_pair :: string
  por_misc_updates :: misc_updates
  por_exception :: "exn option"

record CancelOrderResult =
  cor_client_order_id :: string
  cor_trading_pair :: string
  cor_misc_updates :: misc_updates
  cor_exception :: "exn option"

record CancellationResult =
  cnr_order_id :: string
  cnr_success :: bool

record OrderUpdate =
  ou_trading_pair :: string
  ou_update_timestamp :: real
  ou_new_state :: OrderState
  ou_client_order_id :: string
  ou_exchange_order_id :: "string option"
  ou_misc_updates :: misc_updates

text \<open>
  \<^verbatim>\<open>TradeFeeBase.new_spot_fee(fee_schema=TradeFeeSchema(), trade_type=..., flat_fees=[...])\<close>
  is kept as its arguments: the trade type and the flat fees, each a token and an amount.
\<close>

record 'd TradeFee =
  fee_trade_type :: TradeType
  flat_fees :: "(string \<times> 'd) list"

record 'd TradeUpdate =
  tu_trade_id :: string
  tu_client_order_id :: string
  tu_exchange_order_id :: "string option"
  tu_trading_pair :: string
  tu_fill_timestamp :: real
  tu_fill_price :: 'd
  tu_fill_base_amount :: 'd
  tu_fill_quote_amount :: 'd
  tu_fee :: "'d TradeFee"

subsection \<open>Gateway requests and responses\<close>

text \<open>
  A request is the keyword dictionary the method builds. An optional key is an option
  (\<open>None\<close>: the key is not in the dictionary); a value that may be Python's \<^verbatim>\<open>None\<close> is
  an option as well.
\<close>

record markets_request =
  mr_connector :: string
  mr_chain :: string
  mr_network :: string
  mr_trading_pair :: "string option"

record 'd place_request =
  po_connector :: string
  po_chain :: string
  po_network :: string
  po_trading_pair :: "string option"
  po_address :: string
  po_trade_type :: TradeType
  po_order_type :: OrderType
  po_price :: 'd
  po_size :: 'd
  po_client_order_id :: string

record 'd batch_request =
  bm_connector :: string
  bm_chain :: string
  bm_network :: string
  bm_address :: string
  bm_orders_to_create :: "'d candidate list"
  bm_orders_to_cancel :: "'d cancel_target list"

record cancel_request =
  co_connector :: string
  co_chain :: string
  co_network :: string
  co_trading_pair :: string
  co_address :: string
  co_exchange_order_id :: "string option"

record status_request =
  su_trading_pair :: "string option"
  su_chain :: string
  su_network :: string
  su_connector :: string
  su_address :: string
  su_exchange_order_id :: "string option option"

record ticker_request =
  tk_connector :: string
  tk_chain :: string
  tk_network :: string
  tk_trading_pair :: "string option"

record balances_request =
  gb_chain :: string
  gb_network :: string
  gb_address :: string
  gb_connector :: string
  gb_token_symbols :: "string list"

datatype 'd gateway_call =
  GetClobMarkets markets_request
  | ClobPlaceOrder "'d place_request"
  | ClobBatchOrderModify "'d batch_request"
  | ClobCancelOrder cancel_request
  | GetClobOrderStatusUpdates status_request
  | GetClobTicker ticker_request
  | GetBalances balances_request

text \<open>
  A response is the dictionary the Gateway returns. \<^verbatim>\<open>response["txHash"]\<close> is an option
  of an option: \<open>None\<close> when the key is missing (a \<^verbatim>\<open>KeyError\<close>), \<open>Some None\<close> when
  the value is \<^verbatim>\<open>None\<close>, \<open>Some (Some h)\<close> for a text. An element of \<^verbatim>\<open>orders\<close> is
  an order record with its id and state, or \<open>None\<close> for Python's \<^verbatim>\<open>None\<close>, the
  value \<^verbatim>\<open>if order:\<close> takes for false.
\<close>

record markets_response =
  resp_markets :: "(string \<times> Market) list"

record place_response =
  pr_txHash :: "string option option"
  pr_id :: "string option option"

record batch_response =
  br_txHash :: "string option option"
  br_ids :: "string list option"

record cancel_response =
  cr_txHash :: "string option option"

record order_record =
  or_id :: string
  or_state :: string

record status_response =
  sr_orders :: "order_record option list"

record ticker_response =
  tr_markets :: "(string \<times> string) list"

record balances_response =
  resp_balances :: "(string \<times> string) list"

subsection \<open>The world outside the file\<close>

text \<open>
  The Gateway (one function per endpoint, from the request to the response or the
  exception raised), and the names the file imports from modules that are not part of
  it: \<^verbatim>\<open>generate_hash\<close> and \<^verbatim>\<open>convert_market_name_to_hb_trading_pair\<close> of
  \<^verbatim>\<open>kujira_helpers\<close>, the translation
  \<^verbatim>\<open>KujiraOrderStatus.to_hummingbot(KujiraOrderStatus.from_name(...))\<close> of
  \<^verbatim>\<open>kujira_types\<close>, \<^verbatim>\<open>KUJIRA_NATIVE_TOKEN\<close> of \<^verbatim>\<open>kujira_constants\<close>, the
  \<^verbatim>\<open>Decimal\<close> constructor, \<^verbatim>\<open>time()\<close> and \<^verbatim>\<open>str\<close> of a time.
  \<open>exchange_order_id_arrival c\<close> is what waiting for the venue id of the order with
  client id \<open>c\<close> yields: the id, or \<open>None\<close> when the wait times out.
\<close>

record 'd world =
  get_clob_markets :: "markets_request \<Rightarrow> exn + markets_response"
  clob_place_order :: "'d place_request \<Rightarrow> exn + place_response"
  clob_batch_order_modify :: "'d batch_request \<Rightarrow> exn + batch_response"
  clob_cancel_order :: "cancel_request \<Rightarrow> exn + cancel_response"
  get_clob_order_status_updates :: "status_request \<Rightarrow> exn + status_response"
  get_clob_ticker :: "ticker_request \<Rightarrow> exn + ticker_response"
  get_balances :: "balances_request \<Rightarrow> exn + balances_response"
  generate_hash :: "'d GatewayInFlightOrder \<Rightarrow> string"
  convert_market_name_to_hb_trading_pair :: "string \<Rightarrow> string"
  order_status_to_hummingbot :: "string \<Rightarrow> exn + OrderState"
  KUJIRA_NATIVE_TOKEN :: string
  Decimal :: "string \<Rightarrow> exn + 'd"
  time :: real
  str_of_time :: "real \<Rightarrow> string"
  exchange_order_id_arrival :: "string \<Rightarrow> string option"

subsection \<open>The data source\<close>

text \<open>
  The attributes of the object, the two views of the order tracker the methods use
  (\<^verbatim>\<open>active_orders\<close> and \<^verbatim>\<open>fetch_tracked_order\<close>), the log of the requests sent to
  the Gateway and the events handed to the publisher.
\<close>

record 'd KujiraAPIDataSource =
  self_chain :: string
  self_network :: string
  self_connector :: string
  self_owner_address :: string
  self_trading_pair :: "string option"
  self_markets :: "(string \<times> Market) list option"
  self_market :: "Market option"
  self_markets_info :: "string \<rightharpoonup> Market"
  active_orders :: "string \<rightharpoonup> 'd GatewayInFlightOrder"
  tracked_orders :: "string \<rightharpoonup> 'd GatewayInFlightOrder"
  gateway_calls :: "'d gateway_call list"
  published :: "OrderUpdate list"

text \<open>\<^verbatim>\<open>__init__\<close>: the first trading pair, if there is one; no market is cached yet.\<close>

definition init ::
  "string list \<Rightarrow> string \<Rightarrow> string \<Rightarrow> string \<Rightarrow> string \<Rightarrow> 'd KujiraAPIDataSource" where
  "init trading_pairs chain_name network_name connector_name wallet_address =
     \<lparr> self_chain = chain_name, self_network = network_name,
       self_connector = connector_name, self_owner_address = wallet_address,
       self_trading_pair = (case trading_pairs of [] \<Rightarrow> None | tp # _ \<Rightarrow> Some tp),
       self_markets = None, self_market = None, self_markets_info = Map.empty,
       active_orders = Map.empty, tracked_orders = Map.empty,
       gateway_calls = [], published = [] \<rparr>"

text \<open>Python's truth value of an optional text: \<^verbatim>\<open>None\<close> and \<^verbatim>\<open>""\<close> are false.\<close>

definition truthy :: "string option \<Rightarrow> bool" where
  "truthy v = (case v of None \<Rightarrow> False | Some t \<Rightarrow> t \<noteq> [])"

text \<open>\<^verbatim>\<open>transaction_hash in (None, "")\<close>.\<close>

definition invalid_hash :: "string option \<Rightarrow> bool" where
  "invalid_hash h = (h = None \<or> h = Some [])"

text \<open>The text an f-string puts for an optional text: \<^verbatim>\<open>None\<close> is printed as its name.\<close>

definition fmt :: "string option \<Rightarrow> string" where
  "fmt v = (case v of None \<Rightarrow> ''None'' | Some t \<Rightarrow> t)"

definition send :: "'d gateway_call \<Rightarrow> 'd KujiraAPIDataSource \<Rightarrow> 'd KujiraAPIDataSource" where
  "send c s = s\<lparr>gateway_calls := gateway_calls s @ [c]\<rparr>"

section \<open>The market cache\<close>

definition check_markets_initialized :: "'d KujiraAPIDataSource \<Rightarrow> bool" where
  "check_markets_initialized s =
     (case self_markets s of None \<Rightarrow> False | Some ms \<Rightarrow> ms \<noteq> [])"

definition markets_request_of :: "'d KujiraAPIDataSource \<Rightarrow> markets_request" where
  "markets_request_of s =
     \<lparr> mr_connector = self_connector s, mr_chain = self_chain s,
       mr_network = self_network s,
       mr_trading_pair = (if truthy (self_trading_pair s) then self_trading_pair s else None) \<rparr>"

definition add_hb_trading_pair :: "'d world \<Rightarrow> Market \<Rightarrow> Market" where
  "add_hb_trading_pair w m =
     m\<lparr>hb_trading_pair := Some (convert_market_name_to_hb_trading_pair w (market_name m))\<rparr>"

text \<open>
  \<^verbatim>\<open>_update_markets\<close>. The cache is replaced as soon as the response is there; reading
  the configured pair from it raises \<^verbatim>\<open>KeyError\<close> when the pair is missing, and the
  index is rebuilt only after that. The loop stores \<^verbatim>\<open>hb_trading_pair\<close> in the market
  objects themselves, which the cache and \<^verbatim>\<open>self._market\<close> share.
\<close>

definition update_markets ::
  "'d world \<Rightarrow> 'd KujiraAPIDataSource \<Rightarrow>
     (exn + (string \<times> Market) list) \<times> 'd KujiraAPIDataSource" where
  "update_markets w s =
     (let request = markets_request_of s;
          s1 = send (GetClobMarkets request) s
      in case get_clob_markets w request of
           Inl e \<Rightarrow> (Inl e, s1)
         | Inr response \<Rightarrow>
             (let ms = resp_markets response;
                  s2 = s1\<lparr>self_markets := Some ms\<rparr>;
                  ms' = map (\<lambda>(k, m). (k, add_hb_trading_pair w m)) ms;
                  info = fold (\<lambda>(k, m) mi. mi(the (hb_trading_pair m) \<mapsto> m)) ms' Map.empty
              in if truthy (self_trading_pair s) then
                   (case map_of ms (the (self_trading_pair s)) of
                      None \<Rightarrow> (Inl (Exn KeyError (the (self_trading_pair s))), s2)
                    | Some m \<Rightarrow>
                        (Inr ms', s2\<lparr>self_markets := Some ms',
                                     self_market := Some (add_hb_trading_pair w m),
                                     self_markets_info := info\<rparr>))
                 else (Inr ms', s2\<lparr>self_markets := Some ms', self_markets_info := info\<rparr>)))"

text \<open>\<^verbatim>\<open>self._check_markets_initialized() or await self._update_markets()\<close>.\<close>

definition check_markets_or_update ::
  "'d world \<Rightarrow> 'd KujiraAPIDataSource \<Rightarrow> (exn + unit) \<times> 'd KujiraAPIDataSource" where
  "check_markets_or_update w s =
     (if check_markets_initialized s then (Inr (), s)
      else case update_markets w s of
             (Inl e, s') \<Rightarrow> (Inl e, s')
           | (Inr _, s') \<Rightarrow> (Inr (), s'))"

text \<open>
  Modelled from the spec: \<^verbatim>\<open>GatewayInFlightOrder.get_exchange_order_id\<close> (the class is
  not part of the file). The venue id is returned when the order has one; otherwise the
  call suspends until the id is known, a wait bounded by a timeout.
\<close>

definition get_exchange_order_id ::
  "'d world \<Rightarrow> 'd GatewayInFlightOrder \<Rightarrow> (exn + string) \<times> 'd GatewayInFlightOrder" where
  "get_exchange_order_id w ord =
     (case exchange_order_id ord of
        Some i \<Rightarrow> (Inr i, ord)
      | None \<Rightarrow>
          (case exchange_order_id_arrival w (client_order_id ord) of
             None \<Rightarrow> (Inl (Exn TimeoutError []), ord)
           | Some i \<Rightarrow> (Inr i, ord\<lparr>exchange_order_id := Some i\<rparr>)))"

section \<open>Placing orders\<close>

definition place_order_failed_message :: "string \<Rightarrow> string option \<Rightarrow> string" where
  \<open>place_order_failed_message cid h =
     ''Placement of order "'' @ cid @ ''" failed. Invalid transaction hash: "'' @ fmt h @ ''".''\<close>

text \<open>
  \<^verbatim>\<open>place_order\<close>. The venue id is stored on the order before the hash is checked, so
  the order keeps it when the hash is refused.
\<close>

definition place_order ::
  "'d world \<Rightarrow> 'd KujiraAPIDataSource \<Rightarrow> 'd GatewayInFlightOrder \<Rightarrow>
     (exn + string option \<times> misc_updates) \<times> 'd GatewayInFlightOrder \<times> 'd KujiraAPIDataSource" where
  "place_order w s ord =
     (case check_markets_or_update w s of
        (Inl e, s1) \<Rightarrow> (Inl e, ord, s1)
      | (Inr _, s1) \<Rightarrow>
          (let request =
                 \<lparr> po_connector = self_connector s1, po_chain = self_chain s1,
                   po_network = self_network s1, po_trading_pair = self_trading_pair s1,
                   po_address = self_owner_address s1, po_trade_type = trade_type ord,
                   po_order_type = order_type ord, po_price = price ord,
                   po_size = amount ord, po_client_order_id = client_order_id ord \<rparr>;
               s2 = send (ClobPlaceOrder request) s1
           in case clob_place_order w request of
                Inl e \<Rightarrow> (Inl e, ord, s2)
              | Inr response \<Rightarrow>
                  (case pr_txHash response of
                     None \<Rightarrow> (Inl (Exn KeyError ''txHash''), ord, s2)
                   | Some transaction_hash \<Rightarrow>
                       (case pr_id response of
                          None \<Rightarrow> (Inl (Exn KeyError ''id''), ord, s2)
                        | Some venue_id \<Rightarrow>
                            (let ord' = ord\<lparr>exchange_order_id := venue_id\<rparr>
                             in if invalid_hash transaction_hash then
                                  (Inl (Exn Exception
                                          (place_order_failed_message (client_order_id ord')
                                             transaction_hash)),
                                   ord', s2)
                                else
                                  (Inr (exchange_order_id ord',
                                        [(''creation_transaction_hash'', transaction_hash)]),
                                   ord', s2))))))"

text \<open>
  The first loop of \<^verbatim>\<open>batch_order_create\<close>: every order receives
  \<^verbatim>\<open>generate_hash(order_to_create)\<close> as its client id, the id is collected and an
  \<^verbatim>\<open>InFlightOrder\<close> with the order's amount, the new id, creation time 0, the order's
  types and the data source's trading pair is collected. The result is the orders as
  they are afterwards, \<^verbatim>\<open>client_ids\<close> and the collected candidates.
\<close>

primrec create_candidates ::
  "'d world \<Rightarrow> string option \<Rightarrow> 'd GatewayInFlightOrder list \<Rightarrow>
     'd GatewayInFlightOrder list \<times> string list \<times> 'd candidate list" where
  "create_candidates w tp [] = ([], [], [])"
| "create_candidates w tp (order_to_create # rest) =
     (let ord' = order_to_create\<lparr>client_order_id := generate_hash w order_to_create\<rparr>;
          candidate_order =
            \<lparr> cand_amount = amount ord', cand_client_order_id = client_order_id ord',
              cand_creation_timestamp = 0, cand_order_type = order_type ord',
              cand_trade_type = trade_type ord', cand_trading_pair = tp \<rparr>
      in case create_candidates w tp rest of
           (ords, client_ids, candidates) \<Rightarrow>
             (ord' # ords, client_order_id ord' # client_ids,
              Candidate candidate_order # candidates))"

text \<open>
  The second loop, over \<^verbatim>\<open>zip(orders_to_create, response["ids"])\<close>: it stops at the
  end of the shorter list. An order it reaches loses its venue id and yields one result.
  Every reading of the clock within one call gives the same time in the model.
\<close>

fun place_order_results ::
  "real \<Rightarrow> string option \<Rightarrow> 'd GatewayInFlightOrder list \<Rightarrow> string list \<Rightarrow>
     'd GatewayInFlightOrder list \<times> PlaceOrderResult list" where
  "place_order_results now h [] ids = ([], [])"
| "place_order_results now h (order_to_create # rest) [] = (order_to_create # rest, [])"
| "place_order_results now h (order_to_create # rest) (venue_id # ids) =
     (case place_order_results now h rest ids of
        (ords, results) \<Rightarrow>
          (order_to_create\<lparr>exchange_order_id := None\<rparr> # ords,
           \<lparr> por_update_timestamp = now,
             por_client_order_id = client_order_id order_to_create,
             por_exchange_order_id = venue_id,
             por_trading_pair = trading_pair order_to_create,
             por_misc_updates = [(''creation_transaction_hash'', h)],
             por_exception = None \<rparr> # results))"

text \<open>
  The text of a list of client ids in a message. How Python prints the list does not
  matter to any branch of the code.
\<close>

definition fmt_ids :: "string list \<Rightarrow> string" where
  "fmt_ids ids = concat (map (\<lambda>i. i @ '', '') ids)"

definition place_orders_failed_message :: "string list \<Rightarrow> string option \<Rightarrow> string" where
  \<open>place_orders_failed_message client_ids h =
     ''Placement of orders "'' @ fmt_ids client_ids
       @ ''" failed. Invalid transaction hash: "'' @ fmt h @ ''".''\<close>

definition batch_create_request ::
  "'d KujiraAPIDataSource \<Rightarrow> 'd candidate list \<Rightarrow> 'd batch_request" where
  "batch_create_request s candidate_orders =
     \<lparr> bm_connector = self_connector s, bm_chain = self_chain s,
       bm_network = self_network s, bm_address = self_owner_address s,
       bm_orders_to_create = candidate_orders, bm_orders_to_cancel = [] \<rparr>"

text \<open>
  \<^verbatim>\<open>batch_order_create\<close>. \<^verbatim>\<open>candidate_orders\<close> starts as \<^verbatim>\<open>[in_flight_order]\<close>;
  \<^verbatim>\<open>response["ids"]\<close> is read only after the hash has been accepted.
\<close>

definition batch_order_create ::
  "'d world \<Rightarrow> 'd KujiraAPIDataSource \<Rightarrow> 'd GatewayInFlightOrder list \<Rightarrow>
     (exn + PlaceOrderResult list) \<times> 'd GatewayInFlightOrder list \<times> 'd KujiraAPIDataSource" where
  "batch_order_create w s orders_to_create =
     (case check_markets_or_update w s of
        (Inl e, s1) \<Rightarrow> (Inl e, orders_to_create, s1)
      | (Inr _, s1) \<Rightarrow>
          (case create_candidates w (self_trading_pair s1) orders_to_create of
             (ords, client_ids, candidates) \<Rightarrow>
               (let candidate_orders = InFlightOrderModule # candidates;
                    request = batch_create_request s1 candidate_orders;
                    s2 = send (ClobBatchOrderModify request) s1
                in case clob_batch_order_modify w request of
                     Inl e \<Rightarrow> (Inl e, ords, s2)
                   | Inr response \<Rightarrow>
                       (case br_txHash response of
                          None \<Rightarrow> (Inl (Exn KeyError ''txHash''), ords, s2)
                        | Some transaction_hash \<Rightarrow>
                            if invalid_hash transaction_hash then
                              (Inl (Exn RuntimeError
                                      (place_orders_failed_message client_ids transaction_hash)),
                               ords, s2)
                            else
                              (case br_ids response of
                                 None \<Rightarrow> (Inl (Exn KeyError ''ids''), ords, s2)
                               | Some ids \<Rightarrow>
                                   (case place_order_results (time w) transaction_hash ords ids of
                                      (ords', results) \<Rightarrow>
                                        (Inr results, ords', s2)))))))"

section \<open>Cancelling orders\<close>

definition cancel_order_failed_message ::
  "string \<Rightarrow> string option \<Rightarrow> string option \<Rightarrow> string" where
  \<open>cancel_order_failed_message cid eid h =
     ''Cancellation of order "'' @ cid @ ''" / "'' @ fmt eid
       @ ''" failed. Invalid transaction hash: "'' @ fmt h @ ''".''\<close>

definition zero_transaction_hash :: string where
  "zero_transaction_hash =
     ''0000000000000000000000000000000000000000000000000000000000000000''"

text \<open>
  The \<^verbatim>\<open>try\<close> block of \<^verbatim>\<open>cancel_order\<close>: the Gateway call, the read of
  \<^verbatim>\<open>response["txHash"]\<close> and the \<^verbatim>\<open>raise\<close> for an invalid hash are all inside it,
  so the handler sees the exceptions of all three.
\<close>

definition cancel_order_try ::
  "'d world \<Rightarrow> cancel_request \<Rightarrow> 'd GatewayInFlightOrder \<Rightarrow> exn + string option" where
  "cancel_order_try w request ord =
     (case clob_cancel_order w request of
        Inl e \<Rightarrow> Inl e
      | Inr response \<Rightarrow>
          (case cr_txHash response of
             None \<Rightarrow> Inl (Exn KeyError ''txHash'')
           | Some transaction_hash \<Rightarrow>
               if invalid_hash transaction_hash then
                 Inl (Exn Exception
                        (cancel_order_failed_message (client_order_id ord)
                           (exchange_order_id ord) transaction_hash))
               else Inr transaction_hash))"

text \<open>
  The handler: an exception whose arguments contain the marker becomes the all-zero
  hash, any other is raised again.
\<close>

definition cancel_order_except :: "exn + string option \<Rightarrow> exn + string option" where
  "cancel_order_except outcome =
     (case outcome of
        Inr transaction_hash \<Rightarrow> Inr transaction_hash
      | Inl e \<Rightarrow> if marker_in_args e then Inr (Some zero_transaction_hash) else Inl e)"

definition cancel_request_of ::
  "'d KujiraAPIDataSource \<Rightarrow> 'd GatewayInFlightOrder \<Rightarrow> cancel_request" where
  "cancel_request_of s ord =
     \<lparr> co_connector = self_connector s, co_chain = self_chain s,
       co_network = self_network s, co_trading_pair = trading_pair ord,
       co_address = self_owner_address s, co_exchange_order_id = exchange_order_id ord \<rparr>"

text \<open>
  \<^verbatim>\<open>cancel_order\<close>. The guard reads the tracker's order of that client id; the state
  is written on the order that was passed in, and is to be read from the order returned:
  the \<open>active_orders\<close> of the returned data source are those of the entry state.
\<close>

definition cancel_order ::
  "'d world \<Rightarrow> 'd KujiraAPIDataSource \<Rightarrow> 'd GatewayInFlightOrder \<Rightarrow>
     (exn + bool \<times> misc_updates) \<times> 'd GatewayInFlightOrder \<times> 'd KujiraAPIDataSource" where
  "cancel_order w s ord =
     (case active_orders s (client_order_id ord) of
        None \<Rightarrow> (Inr (True, []), ord, s)
      | Some active_order \<Rightarrow>
          if current_state active_order \<noteq> CANCELED then
            (case check_markets_or_update w s of
               (Inl e, s1) \<Rightarrow> (Inl e, ord, s1)
             | (Inr _, s1) \<Rightarrow>
                 (case get_exchange_order_id w ord of
                    (Inl e, ord1) \<Rightarrow> (Inl e, ord1, s1)
                  | (Inr _, ord1) \<Rightarrow>
                      (let request = cancel_request_of s1 ord1;
                           s2 = send (ClobCancelOrder request) s1
                       in case cancel_order_except (cancel_order_try w request ord1) of
                            Inl e \<Rightarrow> (Inl e, ord1, s2)
                          | Inr transaction_hash \<Rightarrow>
                              (Inr (True, [(''cancelation_transaction_hash'', transaction_hash)]),
                               ord1\<lparr>current_state := CANCELED\<rparr>, s2))))
          else (Inr (True, []), ord, s))"

definition is_timeout :: "exn + string \<Rightarrow> bool" where
  "is_timeout result =
     (case result of Inl e \<Rightarrow> exn_class e = TimeoutError | Inr _ \<Rightarrow> False)"

definition cancel_orders_failed_message :: "string list \<Rightarrow> string option \<Rightarrow> string" where
  \<open>cancel_orders_failed_message ids h =
     ''Cancellation of orders "'' @ fmt_ids ids
       @ ''" failed. Invalid transaction hash: "'' @ fmt h @ ''".''\<close>

definition batch_cancel_request ::
  "'d KujiraAPIDataSource \<Rightarrow> 'd cancel_target list \<Rightarrow> 'd batch_request" where
  "batch_cancel_request s targets =
     \<lparr> bm_connector = self_connector s, bm_chain = self_chain s,
       bm_network = self_network s, bm_address = self_owner_address s,
       bm_orders_to_create = [], bm_orders_to_cancel = targets \<rparr>"

text \<open>
  \<^verbatim>\<open>batch_order_cancel\<close>. \<^verbatim>\<open>fetch_tracked_order\<close> gives \<^verbatim>\<open>None\<close> for an order
  the tracker does not know, and calling \<^verbatim>\<open>get_exchange_order_id\<close> on it raises
  \<^verbatim>\<open>AttributeError\<close>. The waits are gathered with their exceptions; an order whose
  wait timed out is left out of the request, and every requested order gets a result.
\<close>

definition batch_order_cancel ::
  "'d world \<Rightarrow> 'd KujiraAPIDataSource \<Rightarrow> 'd GatewayInFlightOrder list \<Rightarrow>
     (exn + CancelOrderResult list) \<times> 'd KujiraAPIDataSource" where
  "batch_order_cancel w s orders_to_cancel =
     (case check_markets_or_update w s of
        (Inl e, s1) \<Rightarrow> (Inl e, s1)
      | (Inr _, s1) \<Rightarrow>
          (case those (map (\<lambda>ord. tracked_orders s1 (client_order_id ord)) orders_to_cancel) of
             None \<Rightarrow>
               (Inl (Exn AttributeError
                       ''NoneType object has no attribute get_exchange_order_id''), s1)
           | Some in_flight_orders_to_cancel \<Rightarrow>
               (let exchange_order_ids_to_cancel =
                      map (\<lambda>ord. fst (get_exchange_order_id w ord)) in_flight_orders_to_cancel;
                    found_orders_to_cancel =
                      map fst (filter (\<lambda>(ord, result). \<not> is_timeout result)
                                 (zip orders_to_cancel exchange_order_ids_to_cancel));
                    ids = map (\<lambda>ord. fmt (exchange_order_id ord)) found_orders_to_cancel;
                    request = batch_cancel_request s1 (map CancelOrder found_orders_to_cancel);
                    s2 = send (ClobBatchOrderModify request) s1
                in case clob_batch_order_modify w request of
                     Inl e \<Rightarrow> (Inl e, s2)
                   | Inr response \<Rightarrow>
                       (case br_txHash response of
                          None \<Rightarrow> (Inl (Exn KeyError ''txHash''), s2)
                        | Some transaction_hash \<Rightarrow>
                            if invalid_hash transaction_hash then
                              (Inl (Exn RuntimeError
                                      (cancel_orders_failed_message ids transaction_hash)), s2)
                            else
                              (Inr (map (\<lambda>order_to_cancel.
                                           \<lparr> cor_client_order_id = client_order_id order_to_cancel,
                                             cor_trading_pair = trading_pair order_to_cancel,
                                             cor_misc_updates =
                                               [(''cancelation_transaction_hash'', transaction_hash)],
                                             cor_exception = None \<rparr>)
                                      orders_to_cancel),
                               s2)))))"

definition open_orders_request :: "'d KujiraAPIDataSource \<Rightarrow> status_request" where
  "open_orders_request s =
     \<lparr> su_trading_pair = self_trading_pair s, su_chain = self_chain s,
       su_network = self_network s, su_connector = self_connector s,
       su_address = self_owner_address s, su_exchange_order_id = None \<rparr>"

text \<open>\<^verbatim>\<open>[order.id for order in orders]\<close>: reading the id of \<^verbatim>\<open>None\<close> raises.\<close>

definition orders_ids_of :: "order_record option list \<Rightarrow> exn + string list" where
  "orders_ids_of orders =
     (case those orders of
        None \<Rightarrow> Inl (Exn AttributeError ''NoneType object has no attribute id'')
      | Some records \<Rightarrow> Inr (map or_id records))"

text \<open>
  \<^verbatim>\<open>cancel_all_orders\<close>: the poll, then the batch request with the polled ids, sent
  whatever their number; the hash is refused only when there are ids. The list returned
  is the empty list the method creates before it returns.
\<close>

definition cancel_all_orders ::
  "'d world \<Rightarrow> 'd KujiraAPIDataSource \<Rightarrow>
     (exn + CancellationResult list) \<times> 'd KujiraAPIDataSource" where
  "cancel_all_orders w s =
     (case check_markets_or_update w s of
        (Inl e, s1) \<Rightarrow> (Inl e, s1)
      | (Inr _, s1) \<Rightarrow>
          (let request = open_orders_request s1;
               s2 = send (GetClobOrderStatusUpdates request) s1
           in case get_clob_order_status_updates w request of
                Inl e \<Rightarrow> (Inl e, s2)
              | Inr response \<Rightarrow>
                  (case orders_ids_of (sr_orders response) of
                     Inl e \<Rightarrow> (Inl e, s2)
                   | Inr orders_ids \<Rightarrow>
                       (let request' = batch_cancel_request s2 (map CancelId orders_ids);
                            s3 = send (ClobBatchOrderModify request') s2
                        in case clob_batch_order_modify w request' of
                             Inl e \<Rightarrow> (Inl e, s3)
                           | Inr response' \<Rightarrow>
                               (case br_txHash response' of
                                  None \<Rightarrow> (Inl (Exn KeyError ''txHash''), s3)
                                | Some transaction_hash \<Rightarrow>
                                    if invalid_hash transaction_hash \<and> orders_ids \<noteq> [] then
                                      (Inl (Exn RuntimeError
                                              (cancel_orders_failed_message orders_ids
                                                 transaction_hash)), s3)
                                    else (Inr [], s3))))))"

section \<open>Prices and balances\<close>

text \<open>
  \<^verbatim>\<open>get_last_traded_price\<close> asks for the ticker of the data source's own pair (its
  argument is not read) and converts the price.
\<close>

definition get_last_traded_price ::
  "'d world \<Rightarrow> 'd KujiraAPIDataSource \<Rightarrow> string \<Rightarrow> (exn + 'd) \<times> 'd KujiraAPIDataSource" where
  "get_last_traded_price w s pair =
     (let request =
            \<lparr> tk_connector = self_connector s, tk_chain = self_chain s,
              tk_network = self_network s, tk_trading_pair = self_trading_pair s \<rparr>;
          s1 = send (GetClobTicker request) s
      in case get_clob_ticker w request of
           Inl e \<Rightarrow> (Inl e, s1)
         | Inr response \<Rightarrow>
             (case self_trading_pair s of
                None \<Rightarrow> (Inl (Exn KeyError ''None''), s1)
              | Some tp \<Rightarrow>
                  (case map_of (tr_markets response) tp of
                     None \<Rightarrow> (Inl (Exn KeyError tp), s1)
                   | Some ticker_price \<Rightarrow> (Decimal w ticker_price, s1))))"

text \<open>\<^verbatim>\<open>str.split\<close> with a one-character separator.\<close>

fun split :: "char \<Rightarrow> string \<Rightarrow> string list" where
  "split c [] = [[]]"
| "split c (x # xs) =
     (if x = c then [] # split c xs
      else case split c xs of [] \<Rightarrow> [[x]] | y # ys \<Rightarrow> (x # y) # ys)"

text \<open>
  \<^verbatim>\<open>get_account_balances\<close>. The token symbols are the two sides of the pair and the
  native token; \<^verbatim>\<open>split("-")[1]\<close> raises \<^verbatim>\<open>IndexError\<close> for a pair without a dash,
  before anything is sent.
\<close>

definition get_account_balances ::
  "'d world \<Rightarrow> 'd KujiraAPIDataSource \<Rightarrow>
     (exn + (string \<times> (string \<times> string) list) list) \<times> 'd KujiraAPIDataSource" where
  "get_account_balances w s =
     (case (if truthy (self_trading_pair s) then
              (case split CHR ''-'' (the (self_trading_pair s)) of
                 base # quote # _ \<Rightarrow> Inr [base, quote, KUJIRA_NATIVE_TOKEN w]
               | _ \<Rightarrow> Inl (Exn IndexError ''list index out of range''))
            else Inr []) of
        Inl e \<Rightarrow> (Inl e, s)
      | Inr token_symbols \<Rightarrow>
          (let request =
                 \<lparr> gb_chain = self_chain s, gb_network = self_network s,
                   gb_address = self_owner_address s, gb_connector = self_connector s,
                   gb_token_symbols = token_symbols \<rparr>;
               s1 = send (GetBalances request) s
           in case get_balances w request of
                Inl e \<Rightarrow> (Inl e, s1)
              | Inr response \<Rightarrow>
                  (Inr (map (\<lambda>(token, balance).
                               (token, [(''total_balance'', balance),
                                        (''available_balance'', balance)]))
                          (resp_balances response)),
                   s1)))"

section \<open>Order status and fills\<close>

definition order_status_request ::
  "'d KujiraAPIDataSource \<Rightarrow> 'd GatewayInFlightOrder \<Rightarrow> status_request" where
  "order_status_request s ord =
     \<lparr> su_trading_pair = self_trading_pair s, su_chain = self_chain s,
       su_network = self_network s, su_connector = self_connector s,
       su_address = self_owner_address s,
       su_exchange_order_id = Some (exchange_order_id ord) \<rparr>"

definition order_update_of ::
  "'d world \<Rightarrow> 'd GatewayInFlightOrder \<Rightarrow> OrderState \<Rightarrow> OrderUpdate" where
  "order_update_of w ord new_state =
     \<lparr> ou_trading_pair = trading_pair ord, ou_update_timestamp = time w,
       ou_new_state = new_state, ou_client_order_id = client_order_id ord,
       ou_exchange_order_id = exchange_order_id ord,
       ou_misc_updates =
         [(''creation_transaction_hash'', creation_transaction_hash ord),
          (''cancelation_transaction_hash'', cancel_tx_hash ord)] \<rparr>"

text \<open>
  The status both polling methods derive from the response: the first element of
  \<^verbatim>\<open>orders\<close> is read before anything is tested, so an empty list raises
  \<^verbatim>\<open>IndexError\<close>; a record is translated, and \<^verbatim>\<open>None\<close> gives the order's own state.
  The result is the element and the status.
\<close>

definition polled_status ::
  "'d world \<Rightarrow> status_response \<Rightarrow> 'd GatewayInFlightOrder \<Rightarrow>
     exn + order_record option \<times> OrderState" where
  "polled_status w response ord =
     (case sr_orders response of
        [] \<Rightarrow> Inl (Exn IndexError ''list index out of range'')
      | order_rec # _ \<Rightarrow>
          (case order_rec of
             Some r \<Rightarrow>
               (case order_status_to_hummingbot w (or_state r) of
                  Inl e \<Rightarrow> Inl e
                | Inr order_status \<Rightarrow> Inr (order_rec, order_status))
           | None \<Rightarrow> Inr (order_rec, current_state ord)))"

text \<open>
  \<^verbatim>\<open>get_order_status_update\<close>. An order that is not tracked or is cancelled gets an
  update with its own state and nothing is sent or published.
\<close>

definition get_order_status_update ::
  "'d world \<Rightarrow> 'd KujiraAPIDataSource \<Rightarrow> 'd GatewayInFlightOrder \<Rightarrow>
     (exn + OrderUpdate) \<times> 'd GatewayInFlightOrder \<times> 'd KujiraAPIDataSource" where
  "get_order_status_update w s ord =
     (let no_update = (Inr (order_update_of w ord (current_state ord)), ord, s)
      in case active_orders s (client_order_id ord) of
           None \<Rightarrow> no_update
         | Some active_order \<Rightarrow>
             if current_state active_order \<noteq> CANCELED then
               (case get_exchange_order_id w ord of
                  (Inl e, ord1) \<Rightarrow> (Inl e, ord1, s)
                | (Inr _, ord1) \<Rightarrow>
                    (let request = order_status_request s ord1;
                         s1 = send (GetClobOrderStatusUpdates request) s
                     in case get_clob_order_status_updates w request of
                          Inl e \<Rightarrow> (Inl e, ord1, s1)
                        | Inr response \<Rightarrow>
                            (case polled_status w response ord1 of
                               Inl e \<Rightarrow> (Inl e, ord1, s1)
                             | Inr (_, order_status) \<Rightarrow>
                                 (let open_update = order_update_of w ord1 order_status
                                  in (Inr open_update, ord1,
                                      s1\<lparr>published := published s1 @ [open_update]\<rparr>)))))
             else no_update)"

text \<open>
  The fill built for a filled order. The fee needs the cached market: without one,
  reading \<^verbatim>\<open>self._market.fees\<close> raises \<^verbatim>\<open>AttributeError\<close>.
\<close>

definition trade_update_of ::
  "('d::times) world \<Rightarrow> 'd KujiraAPIDataSource \<Rightarrow> 'd GatewayInFlightOrder \<Rightarrow>
     exn + 'd TradeUpdate" where
  "trade_update_of w s ord =
     (case self_market s of
        None \<Rightarrow> Inl (Exn AttributeError ''NoneType object has no attribute fees'')
      | Some m \<Rightarrow>
          (case Decimal w (fees_taker m) of
             Inl e \<Rightarrow> Inl e
           | Inr taker \<Rightarrow>
               Inr \<lparr> tu_trade_id = str_of_time w (time w),
                     tu_client_order_id = client_order_id ord,
                     tu_exchange_order_id = exchange_order_id ord,
                     tu_trading_pair = trading_pair ord,
                     tu_fill_timestamp = time w,
                     tu_fill_price = price ord,
                     tu_fill_base_amount = amount ord,
                     tu_fill_quote_amount = price ord * amount ord,
                     tu_fee = \<lparr> fee_trade_type = trade_type ord,
                                flat_fees = [(quoteToken_symbol m, taker)] \<rparr> \<rparr>))"

text \<open>
  \<^verbatim>\<open>get_all_order_fills\<close>. Nothing is sent for an order without a venue id, an order
  that is not tracked or a cancelled one. The venue id is read as it is: the method does
  not wait for it.
\<close>

definition get_all_order_fills ::
  "('d::times) world \<Rightarrow> 'd KujiraAPIDataSource \<Rightarrow> 'd GatewayInFlightOrder \<Rightarrow>
     (exn + 'd TradeUpdate list) \<times> 'd KujiraAPIDataSource" where
  "get_all_order_fills w s ord =
     (if truthy (exchange_order_id ord) then
        (case active_orders s (client_order_id ord) of
           None \<Rightarrow> (Inr [], s)
         | Some active_order \<Rightarrow>
             if current_state active_order \<noteq> CANCELED then
               (let request = order_status_request s ord;
                    s1 = send (GetClobOrderStatusUpdates request) s
                in case get_clob_order_status_updates w request of
                     Inl e \<Rightarrow> (Inl e, s1)
                   | Inr response \<Rightarrow>
                       (case polled_status w response ord of
                          Inl e \<Rightarrow> (Inl e, s1)
                        | Inr (order_rec, order_status) \<Rightarrow>
                            if order_rec \<noteq> None \<and> order_status = FILLED then
                              (case trade_update_of w s1 ord of
                                 Inl e \<Rightarrow> (Inl e, s1)
                               | Inr trade_update \<Rightarrow> (Inr [trade_update], s1))
                            else (Inr [], s1)))
             else (Inr [], s))
      else (Inr [], s))"

section \<open>A concrete world\<close>

text \<open>
  The market of the repository's tests, a Gateway that accepts everything, two tracked
  orders and a data source for the pair \<^verbatim>\<open>KUJI-USK\<close>. \<^verbatim>\<open>Decimal\<close>s are rationals
  here. The helpers that are not part of the file stand for themselves in the simplest
  way: the hash is a text built from the order's pair and side, the status translation
  knows the names \<^verbatim>\<open>OPEN\<close>, \<^verbatim>\<open>FILLED\<close> and \<^verbatim>\<open>CANCELLED\<close>.
\<close>

definition kuji_usk :: Market where
  "kuji_usk =
     \<lparr> market_name = ''KUJI/USK'', quoteToken_symbol = ''USK'', fees_taker = ''0.15'',
       hb_trading_pair = None \<rparr>"

definition example_hash :: "rat GatewayInFlightOrder \<Rightarrow> string" where
  "example_hash ord =
     ''hash:'' @ trading_pair ord @ (case trade_type ord of BUY \<Rightarrow> '':BUY'' | SELL \<Rightarrow> '':SELL'')"

definition example_status :: "string \<Rightarrow> exn + OrderState" where
  "example_status name =
     (if name = ''OPEN'' then Inr OPEN
      else if name = ''FILLED'' then Inr FILLED
      else if name = ''CANCELLED'' then Inr CANCELED
      else Inl (Exn Exception name))"

definition example_decimal :: "string \<Rightarrow> exn + rat" where
  "example_decimal t =
     (if t = ''0.15'' then Inr (3 / 20)
      else if t = ''0.616'' then Inr (77 / 125)
      else Inl (Exn InvalidOperation t))"

definition example_world :: "rat world" where
  "example_world =
     \<lparr> get_clob_markets = (\<lambda>_. Inr \<lparr> resp_markets = [(''KUJI-USK'', kuji_usk)] \<rparr>),
       clob_place_order = (\<lambda>_. Inr \<lparr> pr_txHash = Some (Some ''a1b2''), pr_id = Some (Some ''1'') \<rparr>),
       clob_batch_order_modify =
         (\<lambda>_. Inr \<lparr> br_txHash = Some (Some ''a1b2''), br_ids = Some [''1'', ''2''] \<rparr>),
       clob_cancel_order = (\<lambda>_. Inr \<lparr> cr_txHash = Some (Some ''c3d4'') \<rparr>),
       get_clob_order_status_updates =
         (\<lambda>_. Inr \<lparr> sr_orders = [Some \<lparr> or_id = ''1'', or_state = ''OPEN'' \<rparr>,
                                   Some \<lparr> or_id = ''2'', or_state = ''OPEN'' \<rparr>] \<rparr>),
       get_clob_ticker = (\<lambda>_. Inr \<lparr> tr_markets = [(''KUJI-USK'', ''0.616'')] \<rparr>),
       get_balances = (\<lambda>_. Inr \<lparr> resp_balances = [(''KUJI'', ''10''), (''USK'', ''20'')] \<rparr>),
       generate_hash = example_hash,
       convert_market_name_to_hb_trading_pair = (\<lambda>name. ''KUJI-USK''),
       order_status_to_hummingbot = example_status,
       KUJIRA_NATIVE_TOKEN = ''KUJI'',
       Decimal = example_decimal,
       time = 1694561843,
       str_of_time = (\<lambda>t. ''1694561843.0''),
       exchange_order_id_arrival = (\<lambda>_. None) \<rparr>"

definition buy_order :: "rat GatewayInFlightOrder" where
  "buy_order =
     \<lparr> client_order_id = ''03719e91d18db65ec3bf5554d678e5b4'',
       exchange_order_id = Some ''1'', trading_pair = ''KUJI-USK'',
       order_type = LIMIT, trade_type = BUY, price = 77 / 125, amount = 2,
       current_state = OPEN, creation_transaction_hash = Some ''a1b2'',
       cancel_tx_hash = None \<rparr>"

definition sell_order :: "rat GatewayInFlightOrder" where
  "sell_order =
     \<lparr> client_order_id = ''02719e91d18db65ec3bf5554d678e5b2'',
       exchange_order_id = Some ''2'', trading_pair = ''KUJI-USK'',
       order_type = LIMIT, trade_type = SELL, price = 5 / 8, amount = 3,
       current_state = OPEN, creation_transaction_hash = Some ''a1b2'',
       cancel_tx_hash = None \<rparr>"

text \<open>The data source as \<^verbatim>\<open>__init__\<close> leaves it: nothing cached, nothing tracked.\<close>

definition fresh_source :: "rat KujiraAPIDataSource" where
  "fresh_source =
     init [''KUJI-USK''] ''kujira'' ''mainnet'' ''kujira''
       ''kujira1yrensec9gzl7y3t3duz44efzgwj2qv6gwayrn7''"

text \<open>The same data source with the market cached and both orders tracked.\<close>

definition example_source :: "rat KujiraAPIDataSource" where
  "example_source =
     fresh_source
       \<lparr> self_markets := Some [(''KUJI-USK'', kuji_usk\<lparr>hb_trading_pair := Some ''KUJI-USK''\<rparr>)],
         self_market := Some (kuji_usk\<lparr>hb_trading_pair := Some ''KUJI-USK''\<rparr>),
         active_orders :=
           [client_order_id buy_order \<mapsto> buy_order, client_order_id sell_order \<mapsto> sell_order],
         tracked_orders :=
           [client_order_id buy_order \<mapsto> buy_order, client_order_id sell_order \<mapsto> sell_order] \<rparr>"

section \<open>The market check at the head of a method\<close>

text \<open>
  What a run of a method from the state \<open>s\<close> to the state \<open>s'\<close> with the result
  \<open>result\<close> shows of the line
  \<^verbatim>\<open>self._check_markets_initialized() or await self._update_markets()\<close>:
  when the cache is not populated at entry, the first request the run sends is the market
  refresh, and a refresh that raises ends the run with that exception and nothing else
  sent; and when a trading pair is configured and the run has sent a request other than a
  refresh, the cache is populated.
\<close>

abbreviation refreshes_first ::
  "'d world \<Rightarrow> 'd KujiraAPIDataSource \<Rightarrow> exn + 'a \<Rightarrow> 'd KujiraAPIDataSource \<Rightarrow> bool" where
  "refreshes_first w s result s' \<equiv>
     (\<not> check_markets_initialized s \<longrightarrow>
        (\<exists>rest. gateway_calls s' = gateway_calls s @ GetClobMarkets (markets_request_of s) # rest
           \<and> (\<forall>e. fst (update_markets w s) = Inl e \<longrightarrow> result = Inl e \<and> rest = [])))
     \<and> (truthy (self_trading_pair s)
        \<and> (\<exists>c \<in> set (drop (length (gateway_calls s)) (gateway_calls s')).
              \<forall>request. c \<noteq> GetClobMarkets request)
        \<longrightarrow> check_markets_initialized s')"

section \<open>Properties\<close>

subsection \<open>Sending leaves everything but the log alone\<close>

lemma send_simps [simp]:
  "gateway_calls (send c s) = gateway_calls s @ [c]"
  "self_markets (send c s) = self_markets s"
  "self_market (send c s) = self_market s"
  "self_trading_pair (send c s) = self_trading_pair s"
  "self_connector (send c s) = self_connector s"
  "self_chain (send c s) = self_chain s"
  "self_network (send c s) = self_network s"
  "self_owner_address (send c s) = self_owner_address s"
  "active_orders (send c s) = active_orders s"
  "tracked_orders (send c s) = tracked_orders s"
  "published (send c s) = published s"
  by (simp_all add: send_def)

lemmas example_defs =
  example_world_def example_source_def fresh_source_def init_def buy_order_def sell_order_def
  kuji_usk_def example_hash_def example_status_def example_decimal_def

lemmas cache_defs =
  check_markets_or_update_def check_markets_initialized_def update_markets_def
  markets_request_of_def add_hb_trading_pair_def truthy_def

subsection \<open>Cancelling an order that is not tracked\<close>

lemma cancel_order_canceled:
  assumes "active_orders s (client_order_id ord) = Some a" and "current_state a = CANCELED"
  shows "cancel_order w s ord = (Inr (True, []), ord, s)"
  using assms by (simp add: cancel_order_def)

text \<open>
  C9. \<^verbatim>\<open>cancel_order\<close> on an order whose client id is not among the tracker's active
  orders returns \<^verbatim>\<open>True\<close> with empty metadata and leaves the order and the data source
  as they are, the Gateway log included: nothing is sent. A tracked order in state
  \<^verbatim>\<open>CANCELED\<close> gets the same answer.
\<close>

theorem cancel_order_untracked:
  assumes "active_orders s (client_order_id ord) = None"
  shows "cancel_order w s ord = (Inr (True, []), ord, s)
         \<and> (\<forall>s' a. active_orders s' (client_order_id ord) = Some a \<and> current_state a = CANCELED
              \<longrightarrow> cancel_order w s' ord = (Inr (True, []), ord, s'))"
proof
  show "cancel_order w s ord = (Inr (True, []), ord, s)"
    using assms by (simp add: cancel_order_def)
  show "\<forall>s' a. active_orders s' (client_order_id ord) = Some a \<and> current_state a = CANCELED
          \<longrightarrow> cancel_order w s' ord = (Inr (True, []), ord, s')"
    by (simp add: cancel_order_def)
qed

theorem cancel_order_untracked_witness:
  "active_orders fresh_source (client_order_id buy_order) = None
   \<and> cancel_order example_world fresh_source buy_order = (Inr (True, []), buy_order, fresh_source)
   \<and> gateway_calls (snd (snd (cancel_order example_world fresh_source buy_order))) = []
   \<and> cancel_order example_world
        (fresh_source\<lparr>active_orders :=
           [client_order_id buy_order \<mapsto> buy_order\<lparr>current_state := CANCELED\<rparr>]\<rparr>) buy_order
      = (Inr (True, []), buy_order,
         fresh_source\<lparr>active_orders :=
           [client_order_id buy_order \<mapsto> buy_order\<lparr>current_state := CANCELED\<rparr>]\<rparr>)"
proof -
  have untracked: "active_orders fresh_source (client_order_id buy_order) = None"
    by (simp add: fresh_source_def init_def)
  note both = cancel_order_untracked [OF untracked, of example_world]
  have "gateway_calls fresh_source = []"
    by (simp add: fresh_source_def init_def)
  moreover have "cancel_order example_world
        (fresh_source\<lparr>active_orders :=
           [client_order_id buy_order \<mapsto> buy_order\<lparr>current_state := CANCELED\<rparr>]\<rparr>) buy_order
      = (Inr (True, []), buy_order,
         fresh_source\<lparr>active_orders :=
           [client_order_id buy_order \<mapsto> buy_order\<lparr>current_state := CANCELED\<rparr>]\<rparr>)"
    using both by simp
  ultimately show ?thesis using untracked both by simp
qed

subsection \<open>What cancelling all orders returns\<close>

text \<open>
  C10. Whenever \<^verbatim>\<open>cancel_all_orders\<close> returns, the list it returns is empty, however
  many open orders the poll found and the batch cancelled.
\<close>

theorem cancel_all_orders_returns_empty:
  assumes "fst (cancel_all_orders w s) = Inr results"
  shows "results = []"
  using assms
  by (auto simp: cancel_all_orders_def Let_def
           split: prod.splits sum.splits option.splits if_splits)

theorem cancel_all_orders_returns_empty_witness:
  "fst (cancel_all_orders example_world example_source) = Inr []
   \<and> gateway_calls (snd (cancel_all_orders example_world example_source))
     = [GetClobOrderStatusUpdates (open_orders_request example_source),
        ClobBatchOrderModify
          (batch_cancel_request example_source [CancelId ''1'', CancelId ''2''])]"
proof -
  have returns: "\<exists>results. fst (cancel_all_orders example_world example_source) = Inr results"
    by (simp add: cancel_all_orders_def example_defs cache_defs open_orders_request_def
          orders_ids_of_def batch_cancel_request_def invalid_hash_def)
  then obtain results
    where r: "fst (cancel_all_orders example_world example_source) = Inr results" ..
  have "results = []"
    by (rule cancel_all_orders_returns_empty [OF r])
  moreover have "gateway_calls (snd (cancel_all_orders example_world example_source))
     = [GetClobOrderStatusUpdates (open_orders_request example_source),
        ClobBatchOrderModify
          (batch_cancel_request example_source [CancelId ''1'', CancelId ''2''])]"
    by (simp add: cancel_all_orders_def example_defs cache_defs open_orders_request_def
          orders_ids_of_def batch_cancel_request_def invalid_hash_def)
  ultimately show ?thesis using r by simp
qed

subsection \<open>Creating a batch of orders\<close>

lemma create_candidates_eq:
  "create_candidates w tp ords =
     (map (\<lambda>ord. ord\<lparr>client_order_id := generate_hash w ord\<rparr>) ords,
      map (generate_hash w) ords,
      map (\<lambda>ord. Candidate
             \<lparr> cand_amount = amount ord, cand_client_order_id = generate_hash w ord,
               cand_creation_timestamp = 0, cand_order_type = order_type ord,
               cand_trade_type = trade_type ord, cand_trading_pair = tp \<rparr>) ords)"
  by (induction ords) simp_all

lemma place_order_results_snd:
  "snd (place_order_results now h ords ids) =
     map (\<lambda>(ord, venue_id).
            \<lparr> por_update_timestamp = now, por_client_order_id = client_order_id ord,
              por_exchange_order_id = venue_id, por_trading_pair = trading_pair ord,
              por_misc_updates = [(''creation_transaction_hash'', h)],
              por_exception = None \<rparr>) (zip ords ids)"
  by (induction now h ords ids rule: place_order_results.induct) (auto split: prod.splits)

lemma place_order_results_snd':
  "place_order_results now h ords ids = (ords', results) \<Longrightarrow>
     results = map (\<lambda>(ord, venue_id).
            \<lparr> por_update_timestamp = now, por_client_order_id = client_order_id ord,
              por_exchange_order_id = venue_id, por_trading_pair = trading_pair ord,
              por_misc_updates = [(''creation_transaction_hash'', h)],
              por_exception = None \<rparr>) (zip ords ids)"
  using place_order_results_snd [of now h ords ids] by simp

lemma place_order_results_client_ids:
  "map client_order_id (fst (place_order_results now h ords ids)) = map client_order_id ords"
  by (induction now h ords ids rule: place_order_results.induct) (auto split: prod.splits)

lemma place_order_results_client_ids':
  "place_order_results now h ords ids = (ords', results) \<Longrightarrow>
     map client_order_id ords' = map client_order_id ords"
  using place_order_results_client_ids [of now h ords ids] by simp

lemma batch_order_create_log:
  assumes "check_markets_or_update w s = (Inr u, s1)"
  shows "gateway_calls (snd (snd (batch_order_create w s orders))) =
           gateway_calls s1 @
             [ClobBatchOrderModify
                (batch_create_request s1
                   (InFlightOrderModule # snd (snd (create_candidates w (self_trading_pair s1) orders))))]"
  using assms
  by (simp add: batch_order_create_def Let_def
           split: prod.splits sum.splits option.splits)

lemma batch_order_create_orders:
  assumes "check_markets_or_update w s = (Inr u, s1)"
  shows "map client_order_id (fst (snd (batch_order_create w s orders)))
           = map (generate_hash w) orders"
  using assms
  by (auto simp: batch_order_create_def Let_def create_candidates_eq comp_def
           dest!: place_order_results_client_ids'
           split: prod.splits sum.splits option.splits)

lemma batch_order_create_InrD:
  assumes "batch_order_create w s orders = (Inr results, ords', s')"
  shows "\<exists>s1 resp h ids.
    s' = send (ClobBatchOrderModify
                 (batch_create_request s1
                    (InFlightOrderModule # snd (snd (create_candidates w (self_trading_pair s1) orders))))) s1
    \<and> clob_batch_order_modify w
       (batch_create_request s1
          (InFlightOrderModule # snd (snd (create_candidates w (self_trading_pair s1) orders))))
     = Inr resp
    \<and> br_txHash resp = Some (Some h) \<and> h \<noteq> [] \<and> br_ids resp = Some ids
    \<and> results = snd (place_order_results (time w) (Some h)
                      (fst (create_candidates w (self_trading_pair s1) orders)) ids)"
  using assms
  apply (clarsimp simp: batch_order_create_def Let_def invalid_hash_def
           split: prod.splits sum.splits option.splits if_splits)
  subgoal for s1 ords cids cands resp ids h
    apply (drule spec [of _ s1])
    apply simp
    done
  done

text \<open>
  C8. When the market check lets \<^verbatim>\<open>batch_order_create\<close> reach the Gateway, the one
  request it sends carries \<open>n + 1\<close> elements in \<^verbatim>\<open>orders_to_create\<close> for \<open>n\<close> input
  orders: the module object the list was initialised with, which belongs to no input
  order, and then one candidate per input order, in order.
\<close>

theorem batch_order_create_sends_extra_candidate:
  assumes "check_markets_or_update w s = (Inr u, s1)"
  shows "\<exists>req. gateway_calls (snd (snd (batch_order_create w s orders)))
                 = gateway_calls s1 @ [ClobBatchOrderModify req]
           \<and> length (bm_orders_to_create req) = length orders + 1
           \<and> bm_orders_to_create req =
               InFlightOrderModule #
               map (\<lambda>ord. Candidate
                      \<lparr> cand_amount = amount ord, cand_client_order_id = generate_hash w ord,
                        cand_creation_timestamp = 0, cand_order_type = order_type ord,
                        cand_trade_type = trade_type ord,
                        cand_trading_pair = self_trading_pair s1 \<rparr>) orders"
  using batch_order_create_log [OF assms, of orders]
  by (simp add: create_candidates_eq batch_create_request_def)

theorem batch_order_create_sends_extra_candidate_witness:
  "check_markets_or_update example_world example_source = (Inr (), example_source)
   \<and> (\<exists>req. gateway_calls
               (snd (snd (batch_order_create example_world example_source [buy_order, sell_order])))
              = [ClobBatchOrderModify req]
            \<and> length (bm_orders_to_create req) = 3
            \<and> hd (bm_orders_to_create req) = InFlightOrderModule)"
proof -
  have cached: "check_markets_or_update example_world example_source = (Inr (), example_source)"
    by (simp add: cache_defs example_defs)
  have log: "gateway_calls example_source = []"
    by (simp add: example_defs)
  from batch_order_create_sends_extra_candidate [OF cached, of "[buy_order, sell_order]"]
  obtain req where
    "gateway_calls (snd (snd (batch_order_create example_world example_source [buy_order, sell_order])))
       = gateway_calls example_source @ [ClobBatchOrderModify req]"
    "length (bm_orders_to_create req) = length [buy_order, sell_order] + 1"
    "hd (bm_orders_to_create req) = InFlightOrderModule"
    by auto
  with cached log show ?thesis by auto
qed

text \<open>
  C7, as the code has it. \<^verbatim>\<open>batch_order_create\<close> gives every input order the client id
  \<^verbatim>\<open>generate_hash(order)\<close>, whether or not the order carried a client id before, and
  the results carry these ids. (When the market refresh fails nothing is assigned.)
\<close>

theorem batch_order_create_overwrites_client_ids:
  fixes w :: "'d world"
  assumes "check_markets_or_update w s = (Inr u, s1)"
  shows "map client_order_id (fst (snd (batch_order_create w s orders)))
           = map (generate_hash w) orders
         \<and> (\<forall>results. fst (batch_order_create w s orders) = Inr results \<longrightarrow>
               (\<forall>i < length results. por_client_order_id (results ! i) = generate_hash w (orders ! i)))"
proof
  show "map client_order_id (fst (snd (batch_order_create w s orders)))
           = map (generate_hash w) orders"
    by (rule batch_order_create_orders [OF assms])
  show "\<forall>results. fst (batch_order_create w s orders) = Inr results \<longrightarrow>
               (\<forall>i < length results. por_client_order_id (results ! i) = generate_hash w (orders ! i))"
  proof (intro allI impI)
    fix results i
    assume r: "fst (batch_order_create w s orders) = Inr results" and i: "i < length results"
    obtain ords' s' where "batch_order_create w s orders = (Inr results, ords', s')"
      using r by (cases "batch_order_create w s orders") auto
    from batch_order_create_InrD [OF this] obtain s2 :: "'d KujiraAPIDataSource" and h ids where
      "results = snd (place_order_results (time w) (Some h)
                      (fst (create_candidates w (self_trading_pair s2) orders)) ids)"
      by (elim exE conjE)
    with i show "por_client_order_id (results ! i) = generate_hash w (orders ! i)"
      by (simp add: place_order_results_snd create_candidates_eq)
  qed
qed

theorem batch_order_create_overwrites_client_ids_witness:
  "check_markets_or_update example_world example_source = (Inr (), example_source)
   \<and> map client_order_id
       (fst (snd (batch_order_create example_world example_source [buy_order, sell_order])))
     = [''hash:KUJI-USK:BUY'', ''hash:KUJI-USK:SELL'']
   \<and> map por_client_order_id
       (projr (fst (batch_order_create example_world example_source [buy_order, sell_order])))
     = [''hash:KUJI-USK:BUY'', ''hash:KUJI-USK:SELL'']"
proof -
  have cached: "check_markets_or_update example_world example_source = (Inr (), example_source)"
    by (simp add: cache_defs example_defs)
  note both = batch_order_create_overwrites_client_ids [OF cached, of "[buy_order, sell_order]"]
  have ids: "map client_order_id
       (fst (snd (batch_order_create example_world example_source [buy_order, sell_order])))
     = [''hash:KUJI-USK:BUY'', ''hash:KUJI-USK:SELL'']"
    using both by (simp add: example_defs)
  have run: "fst (batch_order_create example_world example_source [buy_order, sell_order])
      = Inr (projr (fst (batch_order_create example_world example_source [buy_order, sell_order])))"
    and len: "length (projr (fst (batch_order_create example_world example_source [buy_order, sell_order]))) = 2"
    by (simp_all add: batch_order_create_def cache_defs example_defs batch_create_request_def
          invalid_hash_def)
  from both run len
  have "\<forall>i < 2. por_client_order_id
            (projr (fst (batch_order_create example_world example_source [buy_order, sell_order])) ! i)
          = generate_hash example_world ([buy_order, sell_order] ! i)"
    by (metis (no_types, lifting))
  then have "map por_client_order_id
       (projr (fst (batch_order_create example_world example_source [buy_order, sell_order])))
     = [''hash:KUJI-USK:BUY'', ''hash:KUJI-USK:SELL'']"
    using len by (simp add: list_eq_iff_nth_eq less_Suc_eq numeral_2_eq_2 example_defs)
  with cached ids show ?thesis by simp
qed

text \<open>
  The claim that an order keeps the client id it carries fails: the order below carries
  one, and has the generated one after the call.
\<close>

theorem batch_order_create_keeps_client_id_counterexample:
  "client_order_id buy_order = ''03719e91d18db65ec3bf5554d678e5b4''
   \<and> map client_order_id
       (fst (snd (batch_order_create example_world example_source [buy_order])))
     = [''hash:KUJI-USK:BUY'']"
  by (simp add: batch_order_create_def cache_defs example_defs batch_create_request_def
        invalid_hash_def)

text \<open>
  C6, as the code has it. When \<^verbatim>\<open>batch_order_create\<close> returns results, the Gateway
  answered the batch request with a non-empty transaction hash and a list of venue ids;
  there are as many results as the shorter of the two lists, input orders and venue ids,
  has elements, hence one per input order when there are at least as many ids; the
  \<open>i\<close>-th result carries the \<open>i\<close>-th order's generated client id and trading pair with
  the \<open>i\<close>-th venue id, and every result carries the batch's transaction hash. An answer
  whose hash is missing, \<^verbatim>\<open>None\<close> or empty makes the call raise: there are no results.
\<close>

theorem batch_order_create_results:
  "(\<forall>results ords' s'.
      batch_order_create w s orders = (Inr results, ords', s') \<longrightarrow>
      (\<exists>req resp h ids.
         last (gateway_calls s') = ClobBatchOrderModify req
         \<and> clob_batch_order_modify w req = Inr resp
         \<and> br_txHash resp = Some (Some h) \<and> h \<noteq> [] \<and> br_ids resp = Some ids
         \<and> length results = min (length orders) (length ids)
         \<and> (length orders \<le> length ids \<longrightarrow> length results = length orders)
         \<and> (\<forall>i < length results.
               results ! i =
                 \<lparr> por_update_timestamp = time w,
                   por_client_order_id = generate_hash w (orders ! i),
                   por_exchange_order_id = ids ! i,
                   por_trading_pair = trading_pair (orders ! i),
                   por_misc_updates = [(''creation_transaction_hash'', Some h)],
                   por_exception = None \<rparr>)))
   \<and> (\<forall>r ords' s' req resp.
        batch_order_create w s orders = (r, ords', s')
        \<and> last (gateway_calls s') = ClobBatchOrderModify req
        \<and> clob_batch_order_modify w req = Inr resp
        \<and> (br_txHash resp = None \<or> br_txHash resp = Some None \<or> br_txHash resp = Some (Some []))
        \<longrightarrow> (\<exists>e. r = Inl e))"
proof (intro conjI allI impI)
  fix results ords' s'
  assume run: "batch_order_create w s orders = (Inr results, ords', s')"
  from batch_order_create_InrD [OF run] obtain s1 resp h ids where
    s': "s' = send (ClobBatchOrderModify
                 (batch_create_request s1
                    (InFlightOrderModule # snd (snd (create_candidates w (self_trading_pair s1) orders))))) s1"
    and resp: "clob_batch_order_modify w
       (batch_create_request s1
          (InFlightOrderModule # snd (snd (create_candidates w (self_trading_pair s1) orders))))
     = Inr resp"
    and h: "br_txHash resp = Some (Some h)" "h \<noteq> []" and ids: "br_ids resp = Some ids"
    and results: "results = snd (place_order_results (time w) (Some h)
                      (fst (create_candidates w (self_trading_pair s1) orders)) ids)"
    by blast
  have len: "length results = min (length orders) (length ids)"
    by (simp add: results place_order_results_snd create_candidates_eq)
  have nth: "results ! i =
                 \<lparr> por_update_timestamp = time w,
                   por_client_order_id = generate_hash w (orders ! i),
                   por_exchange_order_id = ids ! i,
                   por_trading_pair = trading_pair (orders ! i),
                   por_misc_updates = [(''creation_transaction_hash'', Some h)],
                   por_exception = None \<rparr>" if "i < length results" for i
    using that len by (simp add: results place_order_results_snd create_candidates_eq)
  have "last (gateway_calls s') = ClobBatchOrderModify
                 (batch_create_request s1
                    (InFlightOrderModule # snd (snd (create_candidates w (self_trading_pair s1) orders))))"
    by (simp add: s')
  with resp h ids len nth
  show "\<exists>req resp h ids.
         last (gateway_calls s') = ClobBatchOrderModify req
         \<and> clob_batch_order_modify w req = Inr resp
         \<and> br_txHash resp = Some (Some h) \<and> h \<noteq> [] \<and> br_ids resp = Some ids
         \<and> length results = min (length orders) (length ids)
         \<and> (length orders \<le> length ids \<longrightarrow> length results = length orders)
         \<and> (\<forall>i < length results.
               results ! i =
                 \<lparr> por_update_timestamp = time w,
                   por_client_order_id = generate_hash w (orders ! i),
                   por_exchange_order_id = ids ! i,
                   por_trading_pair = trading_pair (orders ! i),
                   por_misc_updates = [(''creation_transaction_hash'', Some h)],
                   por_exception = None \<rparr>)"
    by (intro exI conjI) (assumption | simp)+
next
  fix r ords' s' req resp
  assume "batch_order_create w s orders = (r, ords', s')
        \<and> last (gateway_calls s') = ClobBatchOrderModify req
        \<and> clob_batch_order_modify w req = Inr resp
        \<and> (br_txHash resp = None \<or> br_txHash resp = Some None \<or> br_txHash resp = Some (Some []))"
  then show "\<exists>e. r = Inl e"
    by (auto simp: batch_order_create_def Let_def invalid_hash_def
           split: prod.splits sum.splits option.splits if_splits)
qed


text \<open>
  The claim that there are as many results as input orders fails when the Gateway returns
  fewer ids: two orders, one id, one result.
\<close>

theorem batch_order_create_length_counterexample:
  "fst (batch_order_create
          (example_world\<lparr>clob_batch_order_modify :=
             (\<lambda>_. Inr \<lparr> br_txHash = Some (Some ''a1b2''), br_ids = Some [''1''] \<rparr>)\<rparr>)
          example_source [buy_order, sell_order])
   = Inr [\<lparr> por_update_timestamp = 1694561843,
             por_client_order_id = ''hash:KUJI-USK:BUY'',
             por_exchange_order_id = ''1'',
             por_trading_pair = ''KUJI-USK'',
             por_misc_updates = [(''creation_transaction_hash'', Some ''a1b2'')],
             por_exception = None \<rparr>]"
  by (simp add: batch_order_create_def cache_defs example_defs batch_create_request_def
        invalid_hash_def)


theorem batch_order_create_results_witness:
  "(\<exists>results.
      fst (batch_order_create example_world example_source [buy_order, sell_order]) = Inr results
      \<and> length results = 2
      \<and> map por_exchange_order_id results = [''1'', ''2''])
   \<and> (\<exists>e. fst (batch_order_create
                 (example_world\<lparr>clob_batch_order_modify :=
                    (\<lambda>_. Inr \<lparr> br_txHash = Some (Some []), br_ids = Some [''1'', ''2''] \<rparr>)\<rparr>)
                 example_source [buy_order, sell_order]) = Inl e)"
proof
  obtain r ords' s' where
    run: "batch_order_create example_world example_source [buy_order, sell_order] = (r, ords', s')"
    by (cases "batch_order_create example_world example_source [buy_order, sell_order]")
  have "\<exists>results. fst (batch_order_create example_world example_source [buy_order, sell_order])
          = Inr results"
    by (simp add: batch_order_create_def cache_defs example_defs batch_create_request_def
          invalid_hash_def)
  with run obtain results where r: "r = Inr results" by auto
  from batch_order_create_results [of example_world example_source "[buy_order, sell_order]"]
    run r
  obtain req resp h ids where
    resp: "clob_batch_order_modify example_world req = Inr resp" "br_ids resp = Some ids"
    and len: "length results = min (length [buy_order, sell_order]) (length ids)"
    and nth: "\<forall>i < length results. por_exchange_order_id (results ! i) = ids ! i"
    by fastforce
  from resp have ids: "ids = [''1'', ''2'']"
    by (auto simp: example_world_def)
  with len have "length results = 2" by simp
  moreover from this nth ids have "map por_exchange_order_id results = [''1'', ''2'']"
    by (simp add: list_eq_iff_nth_eq less_Suc_eq numeral_2_eq_2)
  ultimately show "\<exists>results.
      fst (batch_order_create example_world example_source [buy_order, sell_order]) = Inr results
      \<and> length results = 2
      \<and> map por_exchange_order_id results = [''1'', ''2'']"
    using run r by simp
next
  let ?w = "example_world\<lparr>clob_batch_order_modify :=
                    (\<lambda>_. Inr \<lparr> br_txHash = Some (Some []), br_ids = Some [''1'', ''2''] \<rparr>)\<rparr>"
  obtain r ords' s' where
    run: "batch_order_create ?w example_source [buy_order, sell_order] = (r, ords', s')"
    by (cases "batch_order_create ?w example_source [buy_order, sell_order]")
  have cached: "check_markets_or_update ?w example_source = (Inr (), example_source)"
    by (simp add: cache_defs example_defs)
  from batch_order_create_log [OF cached, of "[buy_order, sell_order]"] run
  have "\<exists>req. last (gateway_calls s') = ClobBatchOrderModify req"
    by simp
  then obtain req where sent: "last (gateway_calls s') = ClobBatchOrderModify req" ..
  have answer: "clob_batch_order_modify ?w req
          = Inr \<lparr> br_txHash = Some (Some []), br_ids = Some [''1'', ''2''] \<rparr>"
    by simp
  from batch_order_create_results [of ?w example_source "[buy_order, sell_order]"]
    run sent answer
  have "\<exists>e. r = Inl e"
    by (metis (no_types, lifting) batch_response.select_convs(1))
  with run show "\<exists>e. fst (batch_order_create ?w example_source [buy_order, sell_order]) = Inl e"
    by simp
qed

subsection \<open>Cancelling all orders\<close>

lemma request_of_send [simp]:
  "batch_cancel_request (send c s) targets = batch_cancel_request s targets"
  "batch_create_request (send c s) cands = batch_create_request s cands"
  "open_orders_request (send c s) = open_orders_request s"
  "order_status_request (send c s) ord = order_status_request s ord"
  "cancel_request_of (send c s) ord = cancel_request_of s ord"
  by (simp_all add: batch_cancel_request_def batch_create_request_def open_orders_request_def
        order_status_request_def cancel_request_of_def)

text \<open>
  C3, as the code has it. Once the market check has passed and the poll has returned the
  open orders, \<^verbatim>\<open>cancel_all_orders\<close> sends the cancel-only batch request with the polled
  ids whatever their number, the empty list included. When that request is answered with
  a hash, the call succeeds exactly when the hash is valid or there were no ids; when the
  request raises, the call raises.
\<close>

theorem cancel_all_orders_always_submits:
  fixes w :: "'d world"
  assumes cached: "check_markets_or_update w s = (Inr u, s1)"
    and poll: "get_clob_order_status_updates w (open_orders_request s1) = Inr response"
    and ids: "orders_ids_of (sr_orders response) = Inr orders_ids"
  shows "gateway_calls (snd (cancel_all_orders w s))
           = gateway_calls s1 @
               [GetClobOrderStatusUpdates (open_orders_request s1),
                ClobBatchOrderModify (batch_cancel_request s1 (map CancelId orders_ids))]
         \<and> (\<forall>response' h.
               clob_batch_order_modify w (batch_cancel_request s1 (map CancelId orders_ids))
                 = Inr response'
               \<and> br_txHash response' = Some h
               \<longrightarrow> (fst (cancel_all_orders w s) = Inr [])
                     = (\<not> invalid_hash h \<or> orders_ids = []))
         \<and> (\<forall>e. clob_batch_order_modify w (batch_cancel_request s1 (map CancelId orders_ids))
                 = Inl e
               \<longrightarrow> fst (cancel_all_orders w s) = Inl e)"
  using cached poll ids
  by (auto simp: cancel_all_orders_def Let_def split: sum.splits option.splits)

theorem cancel_all_orders_always_submits_witness:
  "check_markets_or_update example_world example_source = (Inr (), example_source)
   \<and> orders_ids_of [Some \<lparr> or_id = ''1'', or_state = ''OPEN'' \<rparr>,
                     Some \<lparr> or_id = ''2'', or_state = ''OPEN'' \<rparr>] = Inr [''1'', ''2'']
   \<and> gateway_calls (snd (cancel_all_orders example_world example_source))
       = [GetClobOrderStatusUpdates (open_orders_request example_source),
          ClobBatchOrderModify
            (batch_cancel_request example_source [CancelId ''1'', CancelId ''2''])]
   \<and> fst (cancel_all_orders example_world example_source) = Inr []"
proof -
  have cached: "check_markets_or_update example_world example_source = (Inr (), example_source)"
    by (simp add: cache_defs example_defs)
  have poll: "get_clob_order_status_updates example_world (open_orders_request example_source)
        = Inr \<lparr> sr_orders = [Some \<lparr> or_id = ''1'', or_state = ''OPEN'' \<rparr>,
                             Some \<lparr> or_id = ''2'', or_state = ''OPEN'' \<rparr>] \<rparr>"
    by (simp add: example_world_def)
  have ids: "orders_ids_of (sr_orders \<lparr> sr_orders = [Some \<lparr> or_id = ''1'', or_state = ''OPEN'' \<rparr>,
                             Some \<lparr> or_id = ''2'', or_state = ''OPEN'' \<rparr>] \<rparr>) = Inr [''1'', ''2'']"
    by (simp add: orders_ids_of_def)
  have answer: "clob_batch_order_modify example_world
                  (batch_cancel_request example_source (map CancelId [''1'', ''2'']))
          = Inr \<lparr> br_txHash = Some (Some ''a1b2''), br_ids = Some [''1'', ''2''] \<rparr>"
    by (simp add: example_world_def)
  have valid: "\<not> invalid_hash (Some ''a1b2'')"
    by (simp add: invalid_hash_def)
  note all = cancel_all_orders_always_submits [OF cached poll ids]
  have "gateway_calls example_source = []"
    by (simp add: example_defs)
  with all have log: "gateway_calls (snd (cancel_all_orders example_world example_source))
       = [GetClobOrderStatusUpdates (open_orders_request example_source),
          ClobBatchOrderModify
            (batch_cancel_request example_source [CancelId ''1'', CancelId ''2''])]"
    by simp
  from all answer valid have "fst (cancel_all_orders example_world example_source) = Inr []"
    by (metis (no_types, lifting) batch_response.select_convs(1))
  with cached ids log show ?thesis by simp
qed

text \<open>
  The claim that nothing is submitted for an empty list of open orders fails: the poll
  below finds no order and the batch request is sent all the same, with nothing to cancel.
\<close>

theorem cancel_all_orders_empty_list_counterexample:
  "cancel_all_orders
     (example_world\<lparr>get_clob_order_status_updates := (\<lambda>_. Inr \<lparr> sr_orders = [] \<rparr>)\<rparr>)
     example_source
   = (Inr [],
      example_source
        \<lparr>gateway_calls :=
           [GetClobOrderStatusUpdates
              \<lparr> su_trading_pair = Some ''KUJI-USK'', su_chain = ''kujira'',
                su_network = ''mainnet'', su_connector = ''kujira'',
                su_address = ''kujira1yrensec9gzl7y3t3duz44efzgwj2qv6gwayrn7'',
                su_exchange_order_id = None \<rparr>,
            ClobBatchOrderModify
              \<lparr> bm_connector = ''kujira'', bm_chain = ''kujira'', bm_network = ''mainnet'',
                bm_address = ''kujira1yrensec9gzl7y3t3duz44efzgwj2qv6gwayrn7'',
                bm_orders_to_create = [], bm_orders_to_cancel = [] \<rparr>]\<rparr>)"
  by (simp add: cancel_all_orders_def cache_defs example_defs open_orders_request_def
        orders_ids_of_def batch_cancel_request_def invalid_hash_def send_def)

subsection \<open>Polling the status of an order\<close>

lemma get_order_status_update_no_record:
  assumes "active_orders s (client_order_id ord) = Some active_order"
    and "current_state active_order \<noteq> CANCELED"
    and "get_exchange_order_id w ord = (Inr i, ord1)"
    and "get_clob_order_status_updates w (order_status_request s ord1) = Inr response"
    and "sr_orders response = []"
  shows "fst (get_order_status_update w s ord) = Inl (Exn IndexError ''list index out of range'')"
  using assms
  by (simp add: get_order_status_update_def polled_status_def Let_def)

lemma get_order_status_update_null_record:
  assumes "active_orders s (client_order_id ord) = Some active_order"
    and "current_state active_order \<noteq> CANCELED"
    and "get_exchange_order_id w ord = (Inr i, ord1)"
    and "get_clob_order_status_updates w (order_status_request s ord1) = Inr response"
    and "sr_orders response = None # rest"
  shows "fst (get_order_status_update w s ord) = Inr (order_update_of w ord1 (current_state ord))"
  using assms
  by (auto simp: get_order_status_update_def polled_status_def Let_def get_exchange_order_id_def
        split: option.splits)

text \<open>
  C4. The claim is that a poll without a matching order record gives an update with the
  order's own state and raises nothing. With an empty \<^verbatim>\<open>orders\<close> list in the response
  the method raises \<^verbatim>\<open>IndexError\<close>, for a tracked order in state \<^verbatim>\<open>OPEN\<close>: the first
  element is read before the fallback is reached. (The fallback is reached, lemma
  \<open>get_order_status_update_null_record\<close>, when the first element is \<^verbatim>\<open>None\<close>.)
\<close>

theorem get_order_status_update_empty_poll:
  "active_orders example_source (client_order_id buy_order) = Some buy_order
   \<and> current_state buy_order = OPEN
   \<and> fst (get_order_status_update
            (example_world\<lparr>get_clob_order_status_updates := (\<lambda>_. Inr \<lparr> sr_orders = [] \<rparr>)\<rparr>)
            example_source buy_order)
     = Inl (Exn IndexError ''list index out of range'')"
  by (simp add: get_order_status_update_def polled_status_def get_exchange_order_id_def
        order_status_request_def example_defs)

subsection \<open>The fills of an order\<close>

text \<open>
  C5, as the code has it. For a tracked order that is not \<^verbatim>\<open>CANCELED\<close> and has a venue
  id, when the status poll returns at least one element: if the first element is a record
  whose state translates to \<^verbatim>\<open>FILLED\<close> and a market with a readable taker fee is
  cached, \<^verbatim>\<open>get_all_order_fills\<close> returns exactly one fill, with the order's price as
  fill price, its amount as base amount, price times amount as quote amount and the
  market's taker fee, in the quote token, as flat fee; if the first element is \<^verbatim>\<open>None\<close>
  or translates to another state it returns the empty list; a list it returns is
  non-empty only in the first case; an exception of the translation propagates.
\<close>

theorem get_all_order_fills_filled:
  fixes w :: "('d::times) world"
  assumes venue_id: "truthy (exchange_order_id ord)"
    and tracked: "active_orders s (client_order_id ord) = Some active_order"
    and not_canceled: "current_state active_order \<noteq> CANCELED"
    and poll: "get_clob_order_status_updates w (order_status_request s ord) = Inr response"
    and first: "sr_orders response = order_rec # rest"
  shows "(\<forall>r m taker.
            order_rec = Some r \<and> order_status_to_hummingbot w (or_state r) = Inr FILLED
            \<and> self_market s = Some m \<and> Decimal w (fees_taker m) = Inr taker
            \<longrightarrow> fst (get_all_order_fills w s ord)
                  = Inr [\<lparr> tu_trade_id = str_of_time w (time w),
                           tu_client_order_id = client_order_id ord,
                           tu_exchange_order_id = exchange_order_id ord,
                           tu_trading_pair = trading_pair ord,
                           tu_fill_timestamp = time w,
                           tu_fill_price = price ord,
                           tu_fill_base_amount = amount ord,
                           tu_fill_quote_amount = price ord * amount ord,
                           tu_fee = \<lparr> fee_trade_type = trade_type ord,
                                      flat_fees = [(quoteToken_symbol m, taker)] \<rparr> \<rparr>])
         \<and> (\<forall>r st.
               order_rec = Some r \<and> order_status_to_hummingbot w (or_state r) = Inr st
               \<and> st \<noteq> FILLED
               \<longrightarrow> fst (get_all_order_fills w s ord) = Inr [])
         \<and> (order_rec = None \<longrightarrow> fst (get_all_order_fills w s ord) = Inr [])
         \<and> (\<forall>fills.
               fst (get_all_order_fills w s ord) = Inr fills \<and> fills \<noteq> []
               \<longrightarrow> length fills = 1
                   \<and> (\<exists>r. order_rec = Some r
                          \<and> order_status_to_hummingbot w (or_state r) = Inr FILLED))
         \<and> (\<forall>r e.
               order_rec = Some r \<and> order_status_to_hummingbot w (or_state r) = Inl e
               \<longrightarrow> fst (get_all_order_fills w s ord) = Inl e)"
proof (intro conjI allI impI)
  fix r m taker
  assume "order_rec = Some r \<and> order_status_to_hummingbot w (or_state r) = Inr FILLED
            \<and> self_market s = Some m \<and> Decimal w (fees_taker m) = Inr taker"
  then show "fst (get_all_order_fills w s ord)
                  = Inr [\<lparr> tu_trade_id = str_of_time w (time w),
                           tu_client_order_id = client_order_id ord,
                           tu_exchange_order_id = exchange_order_id ord,
                           tu_trading_pair = trading_pair ord,
                           tu_fill_timestamp = time w,
                           tu_fill_price = price ord,
                           tu_fill_base_amount = amount ord,
                           tu_fill_quote_amount = price ord * amount ord,
                           tu_fee = \<lparr> fee_trade_type = trade_type ord,
                                      flat_fees = [(quoteToken_symbol m, taker)] \<rparr> \<rparr>]"
    using assms
    by (simp add: get_all_order_fills_def polled_status_def trade_update_of_def Let_def)
next
  fix r st
  assume "order_rec = Some r \<and> order_status_to_hummingbot w (or_state r) = Inr st
               \<and> st \<noteq> FILLED"
  then show "fst (get_all_order_fills w s ord) = Inr []"
    using assms by (simp add: get_all_order_fills_def polled_status_def Let_def)
next
  assume "order_rec = None"
  then show "fst (get_all_order_fills w s ord) = Inr []"
    using assms by (simp add: get_all_order_fills_def polled_status_def Let_def)
next
  fix fills
  assume "fst (get_all_order_fills w s ord) = Inr fills \<and> fills \<noteq> []"
  then show "length fills = 1"
    using assms
    by (auto simp: get_all_order_fills_def polled_status_def Let_def
             split: option.splits sum.splits if_splits)
next
  fix fills
  assume "fst (get_all_order_fills w s ord) = Inr fills \<and> fills \<noteq> []"
  then show "\<exists>r. order_rec = Some r \<and> order_status_to_hummingbot w (or_state r) = Inr FILLED"
    using assms
    by (auto simp: get_all_order_fills_def polled_status_def Let_def
             split: option.splits sum.splits if_splits)
next
  fix r e
  assume "order_rec = Some r \<and> order_status_to_hummingbot w (or_state r) = Inl e"
  then show "fst (get_all_order_fills w s ord) = Inl e"
    using assms by (simp add: get_all_order_fills_def polled_status_def Let_def)
qed

theorem get_all_order_fills_filled_witness:
  "truthy (exchange_order_id buy_order)
   \<and> active_orders example_source (client_order_id buy_order) = Some buy_order
   \<and> current_state buy_order \<noteq> CANCELED
   \<and> fst (get_all_order_fills
            (example_world\<lparr>get_clob_order_status_updates :=
               (\<lambda>_. Inr \<lparr> sr_orders = [Some \<lparr> or_id = ''1'', or_state = ''FILLED'' \<rparr>] \<rparr>)\<rparr>)
            example_source buy_order)
     = Inr [\<lparr> tu_trade_id = ''1694561843.0'',
               tu_client_order_id = ''03719e91d18db65ec3bf5554d678e5b4'',
               tu_exchange_order_id = Some ''1'',
               tu_trading_pair = ''KUJI-USK'',
               tu_fill_timestamp = 1694561843,
               tu_fill_price = 77 / 125,
               tu_fill_base_amount = 2,
               tu_fill_quote_amount = 154 / 125,
               tu_fee = \<lparr> fee_trade_type = BUY, flat_fees = [(''USK'', 3 / 20)] \<rparr> \<rparr>]
   \<and> fst (get_all_order_fills example_world example_source buy_order) = Inr []"
proof -
  let ?w = "example_world\<lparr>get_clob_order_status_updates :=
               (\<lambda>_. Inr \<lparr> sr_orders = [Some \<lparr> or_id = ''1'', or_state = ''FILLED'' \<rparr>] \<rparr>)\<rparr>"
  let ?m = "kuji_usk\<lparr>hb_trading_pair := Some ''KUJI-USK''\<rparr>"
  have venue_id: "truthy (exchange_order_id buy_order)"
    by (simp add: truthy_def buy_order_def)
  have tracked: "active_orders example_source (client_order_id buy_order) = Some buy_order"
    by (simp add: example_defs)
  have not_canceled: "current_state buy_order \<noteq> CANCELED"
    by (simp add: buy_order_def)
  have poll: "get_clob_order_status_updates ?w (order_status_request example_source buy_order)
        = Inr \<lparr> sr_orders = [Some \<lparr> or_id = ''1'', or_state = ''FILLED'' \<rparr>] \<rparr>"
    by simp
  have first: "sr_orders \<lparr> sr_orders = [Some \<lparr> or_id = ''1'', or_state = ''FILLED'' \<rparr>] \<rparr>
        = Some \<lparr> or_id = ''1'', or_state = ''FILLED'' \<rparr> # []"
    by simp
  have filled: "order_status_to_hummingbot ?w (or_state \<lparr> or_id = ''1'', or_state = ''FILLED'' \<rparr>)
        = Inr FILLED"
    by (simp add: example_world_def example_status_def)
  have market: "self_market example_source = Some ?m"
    by (simp add: example_defs)
  have taker: "Decimal ?w (fees_taker ?m) = Inr (3 / 20)"
    by (simp add: example_defs)
  from get_all_order_fills_filled [OF venue_id tracked not_canceled poll first]
    filled market taker
  have "fst (get_all_order_fills ?w example_source buy_order)
          = Inr [\<lparr> tu_trade_id = str_of_time ?w (time ?w),
                   tu_client_order_id = client_order_id buy_order,
                   tu_exchange_order_id = exchange_order_id buy_order,
                   tu_trading_pair = trading_pair buy_order,
                   tu_fill_timestamp = time ?w,
                   tu_fill_price = price buy_order,
                   tu_fill_base_amount = amount buy_order,
                   tu_fill_quote_amount = price buy_order * amount buy_order,
                   tu_fee = \<lparr> fee_trade_type = trade_type buy_order,
                              flat_fees = [(quoteToken_symbol ?m, 3 / 20)] \<rparr> \<rparr>]"
    by blast
  then have one: "fst (get_all_order_fills ?w example_source buy_order)
     = Inr [\<lparr> tu_trade_id = ''1694561843.0'',
               tu_client_order_id = ''03719e91d18db65ec3bf5554d678e5b4'',
               tu_exchange_order_id = Some ''1'',
               tu_trading_pair = ''KUJI-USK'',
               tu_fill_timestamp = 1694561843,
               tu_fill_price = 77 / 125,
               tu_fill_base_amount = 2,
               tu_fill_quote_amount = 154 / 125,
               tu_fee = \<lparr> fee_trade_type = BUY, flat_fees = [(''USK'', 3 / 20)] \<rparr> \<rparr>]"
    by (simp add: example_defs)
  have poll': "get_clob_order_status_updates example_world (order_status_request example_source buy_order)
        = Inr \<lparr> sr_orders = [Some \<lparr> or_id = ''1'', or_state = ''OPEN'' \<rparr>,
                             Some \<lparr> or_id = ''2'', or_state = ''OPEN'' \<rparr>] \<rparr>"
    by (simp add: example_world_def)
  have first': "sr_orders \<lparr> sr_orders = [Some \<lparr> or_id = ''1'', or_state = ''OPEN'' \<rparr>,
                             Some \<lparr> or_id = ''2'', or_state = ''OPEN'' \<rparr>] \<rparr>
        = Some \<lparr> or_id = ''1'', or_state = ''OPEN'' \<rparr> # [Some \<lparr> or_id = ''2'', or_state = ''OPEN'' \<rparr>]"
    by simp
  have open_state: "order_status_to_hummingbot example_world
          (or_state \<lparr> or_id = ''1'', or_state = ''OPEN'' \<rparr>) = Inr OPEN"
    by (simp add: example_world_def example_status_def)
  from get_all_order_fills_filled [OF venue_id tracked not_canceled poll' first'] open_state
  have none: "fst (get_all_order_fills example_world example_source buy_order) = Inr []"
    by blast
  from venue_id tracked not_canceled one none show ?thesis by simp
qed

text \<open>
  The claim that every other case gives the empty list fails: an empty list of polled
  orders raises \<^verbatim>\<open>IndexError\<close>, and a fill for a data source that has not cached its
  market yet raises \<^verbatim>\<open>AttributeError\<close>.
\<close>

theorem get_all_order_fills_other_cases_counterexample:
  "truthy (exchange_order_id buy_order)
   \<and> active_orders example_source (client_order_id buy_order) = Some buy_order
   \<and> current_state buy_order = OPEN
   \<and> fst (get_all_order_fills
            (example_world\<lparr>get_clob_order_status_updates := (\<lambda>_. Inr \<lparr> sr_orders = [] \<rparr>)\<rparr>)
            example_source buy_order)
     = Inl (Exn IndexError ''list index out of range'')
   \<and> fst (get_all_order_fills
            (example_world\<lparr>get_clob_order_status_updates :=
               (\<lambda>_. Inr \<lparr> sr_orders = [Some \<lparr> or_id = ''1'', or_state = ''FILLED'' \<rparr>] \<rparr>)\<rparr>)
            (fresh_source\<lparr>active_orders := [client_order_id buy_order \<mapsto> buy_order]\<rparr>)
            buy_order)
     = Inl (Exn AttributeError ''NoneType object has no attribute fees'')"
  by (simp add: get_all_order_fills_def polled_status_def trade_update_of_def
        order_status_request_def truthy_def example_defs)

subsection \<open>Cancelling one order\<close>

text \<open>
  The marker has no double quote, and the message for an invalid hash puts both ids and
  the hash between double quotes: the marker occurs in the message exactly when it
  occurs in one of the ids.
\<close>

lemma sublist_split_at:
  assumes "c \<notin> set xs"
  shows "sublist xs (ys @ c # zs) \<longleftrightarrow> sublist xs ys \<or> sublist xs zs"
proof
  assume "sublist xs (ys @ c # zs)"
  then consider "sublist xs ys" | "sublist xs (c # zs)"
    | xs1 xs2 where "xs = xs1 @ xs2" "suffix xs1 ys" "prefix xs2 (c # zs)"
    by (auto simp: sublist_append)
  then show "sublist xs ys \<or> sublist xs zs"
  proof cases
    case 1
    then show ?thesis by simp
  next
    case 2
    then show ?thesis
      using assms by (cases xs) (auto simp: sublist_Cons_right prefix_Cons)
  next
    case 3
    with assms have "xs2 = []"
      by (cases xs2) (auto simp: prefix_Cons)
    with 3 show ?thesis by (auto intro: suffix_imp_sublist)
  qed
next
  assume "sublist xs ys \<or> sublist xs zs"
  then show "sublist xs (ys @ c # zs)"
    by (auto simp: sublist_append sublist_Cons_right)
qed

lemma quote_not_in_marker: "CHR 0x22 \<notin> set order_not_found_marker"
  by (simp add: order_not_found_marker_def)

lemma cancel_order_failed_message_split:
  "cancel_order_failed_message cid eid h =
     ''Cancellation of order '' @ CHR 0x22 # cid @ CHR 0x22 # '' / '' @ CHR 0x22 # fmt eid
       @ CHR 0x22 # '' failed. Invalid transaction hash: '' @ CHR 0x22 # fmt h @ CHR 0x22 # ''.''"
  by (simp add: cancel_order_failed_message_def)

lemma marker_not_in_literals:
  "\<not> sublist order_not_found_marker ''Cancellation of order ''"
  "\<not> sublist order_not_found_marker '' / ''"
  "\<not> sublist order_not_found_marker '' failed. Invalid transaction hash: ''"
  "\<not> sublist order_not_found_marker ''.''"
  "\<not> sublist order_not_found_marker ''None''"
  "\<not> sublist order_not_found_marker []"
  by (simp_all add: order_not_found_marker_def sublist_Cons_right prefix_Cons)

lemma marker_in_failed_message:
  assumes "invalid_hash h"
  shows "sublist order_not_found_marker (cancel_order_failed_message cid eid h)
         \<longleftrightarrow> sublist order_not_found_marker cid \<or> sublist order_not_found_marker (fmt eid)"
proof -
  from assms have "fmt h = ''None'' \<or> fmt h = []"
    by (auto simp: invalid_hash_def fmt_def)
  then have "\<not> sublist order_not_found_marker (fmt h)"
    using marker_not_in_literals by auto
  then show ?thesis
    unfolding cancel_order_failed_message_split
    by (simp only: sublist_split_at [OF quote_not_in_marker] marker_not_in_literals simp_thms)
qed


lemma get_exchange_order_id_InrD:
  assumes "get_exchange_order_id w ord = (Inr i, ord1)"
  shows "exchange_order_id ord1 = Some i" "client_order_id ord1 = client_order_id ord"
    "current_state ord1 = current_state ord" "trading_pair ord1 = trading_pair ord"
  using assms by (auto simp: get_exchange_order_id_def split: option.splits)

lemma key_error_has_no_marker: "\<not> marker_in_args (Exn KeyError ''txHash'')"
  by (simp add: marker_in_args_def order_not_found_marker_def sublist_Cons_right prefix_Cons)

text \<open>
  C2. For a tracked order that is not \<^verbatim>\<open>CANCELED\<close>, once the market check has passed
  and the venue id is known: a Gateway exception whose arguments contain the "order not
  found" marker gives success with the all-zero hash in the metadata and sets the state
  of the order passed in to \<^verbatim>\<open>CANCELED\<close>; any other Gateway exception is raised to
  the caller, and so are a response without a hash entry and a hash that is \<^verbatim>\<open>None\<close>
  or empty, the order's state left as it was. The exception for a \<^verbatim>\<open>None\<close> or empty
  hash is raised inside the \<^verbatim>\<open>try\<close> block and its message quotes the order's two
  ids, so this last case is stated for ids that do not contain the marker sentence, as
  the ids the engine and the venue produce do not.
\<close>

theorem cancel_order_outcomes:
  fixes w :: "'d world"
  assumes tracked: "active_orders s (client_order_id ord) = Some active_order"
    and not_canceled: "current_state active_order \<noteq> CANCELED"
    and cached: "check_markets_or_update w s = (Inr u, s1)"
    and venue_id: "get_exchange_order_id w ord = (Inr i, ord1)"
  shows "(\<forall>e. clob_cancel_order w (cancel_request_of s1 ord1) = Inl e \<and> marker_in_args e
            \<longrightarrow> fst (cancel_order w s ord)
                  = Inr (True, [(''cancelation_transaction_hash'', Some zero_transaction_hash)])
                \<and> current_state (fst (snd (cancel_order w s ord))) = CANCELED)
         \<and> (\<forall>e. clob_cancel_order w (cancel_request_of s1 ord1) = Inl e \<and> \<not> marker_in_args e
               \<longrightarrow> fst (cancel_order w s ord) = Inl e
                   \<and> current_state (fst (snd (cancel_order w s ord))) = current_state ord)
         \<and> (\<forall>response.
               clob_cancel_order w (cancel_request_of s1 ord1) = Inr response
               \<and> cr_txHash response = None
               \<longrightarrow> fst (cancel_order w s ord) = Inl (Exn KeyError ''txHash'')
                   \<and> current_state (fst (snd (cancel_order w s ord))) = current_state ord)
         \<and> (\<forall>response h.
               clob_cancel_order w (cancel_request_of s1 ord1) = Inr response
               \<and> cr_txHash response = Some h \<and> invalid_hash h
               \<and> \<not> sublist order_not_found_marker (client_order_id ord)
               \<and> \<not> sublist order_not_found_marker i
               \<longrightarrow> fst (cancel_order w s ord)
                     = Inl (Exn Exception
                              (cancel_order_failed_message (client_order_id ord) (Some i) h))
                   \<and> current_state (fst (snd (cancel_order w s ord))) = current_state ord)"
proof -
  note ord1 = get_exchange_order_id_InrD [OF venue_id]
  note unfold = cancel_order_def cancel_order_try_def cancel_order_except_def Let_def
  show ?thesis
  proof (intro conjI allI impI)
    fix e
    assume found: "clob_cancel_order w (cancel_request_of s1 ord1) = Inl e \<and> marker_in_args e"
    then show "fst (cancel_order w s ord)
                  = Inr (True, [(''cancelation_transaction_hash'', Some zero_transaction_hash)])"
      using tracked not_canceled cached venue_id by (simp add: unfold)
    from found show "current_state (fst (snd (cancel_order w s ord))) = CANCELED"
      using tracked not_canceled cached venue_id by (simp add: unfold)
  next
    fix e
    assume other: "clob_cancel_order w (cancel_request_of s1 ord1) = Inl e \<and> \<not> marker_in_args e"
    then show "fst (cancel_order w s ord) = Inl e"
      using tracked not_canceled cached venue_id by (simp add: unfold)
    from other show "current_state (fst (snd (cancel_order w s ord))) = current_state ord"
      using tracked not_canceled cached venue_id ord1 by (simp add: unfold)
  next
    fix response
    assume missing: "clob_cancel_order w (cancel_request_of s1 ord1) = Inr response
               \<and> cr_txHash response = None"
    then show "fst (cancel_order w s ord) = Inl (Exn KeyError ''txHash'')"
      using tracked not_canceled cached venue_id key_error_has_no_marker
      by (simp add: unfold)
    from missing show "current_state (fst (snd (cancel_order w s ord))) = current_state ord"
      using tracked not_canceled cached venue_id ord1 key_error_has_no_marker
      by (simp add: unfold)
  next
    fix response h
    assume invalid: "clob_cancel_order w (cancel_request_of s1 ord1) = Inr response
               \<and> cr_txHash response = Some h \<and> invalid_hash h
               \<and> \<not> sublist order_not_found_marker (client_order_id ord)
               \<and> \<not> sublist order_not_found_marker i"
    then have no_marker: "\<not> marker_in_args
                 (Exn Exception (cancel_order_failed_message (client_order_id ord) (Some i) h))"
      by (simp add: marker_in_args_def marker_in_failed_message fmt_def)
    with invalid show "fst (cancel_order w s ord)
                     = Inl (Exn Exception
                              (cancel_order_failed_message (client_order_id ord) (Some i) h))"
      using tracked not_canceled cached venue_id ord1 by (simp add: unfold)
    from invalid no_marker
    show "current_state (fst (snd (cancel_order w s ord))) = current_state ord"
      using tracked not_canceled cached venue_id ord1 by (simp add: unfold)
  qed
qed

theorem cancel_order_outcomes_witness:
  "active_orders example_source (client_order_id buy_order) = Some buy_order
   \<and> current_state buy_order = OPEN
   \<and> check_markets_or_update example_world example_source = (Inr (), example_source)
   \<and> get_exchange_order_id example_world buy_order = (Inr ''1'', buy_order)
   \<and> fst (cancel_order
            (example_world\<lparr>clob_cancel_order :=
               (\<lambda>_. Inl (Exn GatewayError
                            ''Error: No orders with the specified information exist.''))\<rparr>)
            example_source buy_order)
      = Inr (True, [(''cancelation_transaction_hash'', Some zero_transaction_hash)])
   \<and> current_state
        (fst (snd (cancel_order
            (example_world\<lparr>clob_cancel_order :=
               (\<lambda>_. Inl (Exn GatewayError
                            ''Error: No orders with the specified information exist.''))\<rparr>)
            example_source buy_order)))
      = CANCELED
   \<and> fst (cancel_order
            (example_world\<lparr>clob_cancel_order := (\<lambda>_. Inl (Exn GatewayError ''insufficient funds''))\<rparr>)
            example_source buy_order)
      = Inl (Exn GatewayError ''insufficient funds'')
   \<and> fst (cancel_order
            (example_world\<lparr>clob_cancel_order := (\<lambda>_. Inr \<lparr> cr_txHash = None \<rparr>)\<rparr>)
            example_source buy_order)
      = Inl (Exn KeyError ''txHash'')
   \<and> fst (cancel_order
            (example_world\<lparr>clob_cancel_order := (\<lambda>_. Inr \<lparr> cr_txHash = Some (Some []) \<rparr>)\<rparr>)
            example_source buy_order)
      = Inl (Exn Exception
               (cancel_order_failed_message (client_order_id buy_order) (Some ''1'') (Some [])))
   \<and> current_state
        (fst (snd (cancel_order
            (example_world\<lparr>clob_cancel_order := (\<lambda>_. Inr \<lparr> cr_txHash = Some (Some []) \<rparr>)\<rparr>)
            example_source buy_order)))
      = OPEN"
proof -
  have tracked: "active_orders example_source (client_order_id buy_order) = Some buy_order"
    by (simp add: example_defs)
  have state: "current_state buy_order = OPEN"
    by (simp add: buy_order_def)
  then have not_canceled: "current_state buy_order \<noteq> CANCELED"
    by simp
  have cached: "check_markets_or_update w example_source = (Inr (), example_source)"
    for w :: "rat world"
    by (simp add: cache_defs example_defs)
  have venue_id: "get_exchange_order_id w buy_order = (Inr ''1'', buy_order)"
    for w :: "rat world"
    by (simp add: get_exchange_order_id_def buy_order_def)
  note outcomes = cancel_order_outcomes [OF tracked not_canceled cached venue_id]
  have found: "marker_in_args
                 (Exn GatewayError ''Error: No orders with the specified information exist.'')"
    by (simp add: marker_in_args_def order_not_found_marker_def sublist_Cons_right prefix_Cons)
  have other: "\<not> marker_in_args (Exn GatewayError ''insufficient funds'')"
    by (simp add: marker_in_args_def order_not_found_marker_def sublist_Cons_right prefix_Cons)
  have plain: "\<not> sublist order_not_found_marker (client_order_id buy_order)"
    "\<not> sublist order_not_found_marker ''1''"
    by (simp_all add: buy_order_def order_not_found_marker_def sublist_Cons_right prefix_Cons)
  have empty: "invalid_hash (Some [])"
    by (simp add: invalid_hash_def)
  have a: "fst (cancel_order
            (example_world\<lparr>clob_cancel_order :=
               (\<lambda>_. Inl (Exn GatewayError
                            ''Error: No orders with the specified information exist.''))\<rparr>)
            example_source buy_order)
      = Inr (True, [(''cancelation_transaction_hash'', Some zero_transaction_hash)])
   \<and> current_state
        (fst (snd (cancel_order
            (example_world\<lparr>clob_cancel_order :=
               (\<lambda>_. Inl (Exn GatewayError
                            ''Error: No orders with the specified information exist.''))\<rparr>)
            example_source buy_order)))
      = CANCELED"
    using outcomes [of "example_world\<lparr>clob_cancel_order :=
           (\<lambda>_. Inl (Exn GatewayError
                        ''Error: No orders with the specified information exist.''))\<rparr>",
          THEN conjunct1]
      found by simp
  have b: "fst (cancel_order
            (example_world\<lparr>clob_cancel_order := (\<lambda>_. Inl (Exn GatewayError ''insufficient funds''))\<rparr>)
            example_source buy_order)
      = Inl (Exn GatewayError ''insufficient funds'')"
    using outcomes [of "example_world\<lparr>clob_cancel_order :=
           (\<lambda>_. Inl (Exn GatewayError ''insufficient funds''))\<rparr>",
          THEN conjunct2, THEN conjunct1]
      other by simp
  have c: "fst (cancel_order
            (example_world\<lparr>clob_cancel_order := (\<lambda>_. Inr \<lparr> cr_txHash = None \<rparr>)\<rparr>)
            example_source buy_order)
      = Inl (Exn KeyError ''txHash'')"
    using outcomes [of "example_world\<lparr>clob_cancel_order := (\<lambda>_. Inr \<lparr> cr_txHash = None \<rparr>)\<rparr>",
          THEN conjunct2, THEN conjunct2, THEN conjunct1]
    by simp
  have d: "fst (cancel_order
            (example_world\<lparr>clob_cancel_order := (\<lambda>_. Inr \<lparr> cr_txHash = Some (Some []) \<rparr>)\<rparr>)
            example_source buy_order)
      = Inl (Exn Exception
               (cancel_order_failed_message (client_order_id buy_order) (Some ''1'') (Some [])))
   \<and> current_state
        (fst (snd (cancel_order
            (example_world\<lparr>clob_cancel_order := (\<lambda>_. Inr \<lparr> cr_txHash = Some (Some []) \<rparr>)\<rparr>)
            example_source buy_order)))
      = current_state buy_order"
    using outcomes [of "example_world\<lparr>clob_cancel_order :=
           (\<lambda>_. Inr \<lparr> cr_txHash = Some (Some []) \<rparr>)\<rparr>",
          THEN conjunct2, THEN conjunct2, THEN conjunct2]
      plain empty by simp
  from tracked state cached venue_id a b c d show ?thesis by simp
qed

subsection \<open>The market check before an operation\<close>

lemma update_markets_log:
  "gateway_calls (snd (update_markets w s))
     = gateway_calls s @ [GetClobMarkets (markets_request_of s)]"
  by (simp add: update_markets_def Let_def split: sum.splits option.splits)

lemma update_markets_populates:
  assumes "update_markets w s = (Inr ms, s1)" and "truthy (self_trading_pair s)"
  shows "check_markets_initialized s1"
  using assms
  by (auto simp: update_markets_def Let_def check_markets_initialized_def
           split: sum.splits option.splits if_splits)

lemma check_markets_or_update_cases:
  obtains (cached) "check_markets_initialized s" "check_markets_or_update w s = (Inr (), s)"
  | (refresh_failed) e s1 where "\<not> check_markets_initialized s"
      "update_markets w s = (Inl e, s1)" "check_markets_or_update w s = (Inl e, s1)"
  | (refreshed) ms s1 where "\<not> check_markets_initialized s"
      "update_markets w s = (Inr ms, s1)" "check_markets_or_update w s = (Inr (), s1)"
proof (cases "check_markets_initialized s")
  case True
  then show ?thesis
    by (intro cached) (simp_all add: check_markets_or_update_def)
next
  case False
  obtain r s1 where u: "update_markets w s = (r, s1)"
    by (cases "update_markets w s")
  show ?thesis
  proof (cases r)
    case (Inl e)
    with False u show ?thesis
      by (intro refresh_failed [of e s1]) (simp_all add: check_markets_or_update_def)
  next
    case (Inr ms)
    with False u show ?thesis
      by (intro refreshed [of ms s1]) (simp_all add: check_markets_or_update_def)
  qed
qed

lemma refreshes_firstI:
  fixes w :: "'d world"
  assumes log: "gateway_calls s' = gateway_calls (snd (check_markets_or_update w s)) @ own"
    and fail: "\<And>e. fst (check_markets_or_update w s) = Inl e \<Longrightarrow> result = Inl e \<and> own = []"
    and markets: "self_markets s' = self_markets (snd (check_markets_or_update w s))"
  shows "refreshes_first w s result s'"
proof (cases rule: check_markets_or_update_cases [of s w])
  case cached
  with markets show ?thesis
    by (simp add: check_markets_initialized_def)
next
  case (refresh_failed e s1)
  with log fail [of e] update_markets_log [of w s] show ?thesis
    by simp
next
  case (refreshed ms s1)
  from refreshed update_markets_populates have "truthy (self_trading_pair s) \<Longrightarrow> check_markets_initialized s'"
    using markets by (fastforce simp: check_markets_initialized_def)
  with refreshed log update_markets_log [of w s] show ?thesis
    by simp
qed


lemma place_order_gate:
  "refreshes_first w s (fst (place_order w s ord)) (snd (snd (place_order w s ord)))"
proof (rule refreshes_firstI)
  obtain r1 s1 where c: "check_markets_or_update w s = (r1, s1)"
    by (cases "check_markets_or_update w s")
  let ?own = "drop (length (gateway_calls (snd (check_markets_or_update w s))))
                (gateway_calls (snd (snd (place_order w s ord))))"
  show "gateway_calls (snd (snd (place_order w s ord)))
          = gateway_calls (snd (check_markets_or_update w s)) @ ?own"
    using c by (cases r1) (auto simp: place_order_def Let_def split: sum.splits option.splits)
  show "fst (place_order w s ord) = Inl e \<and> ?own = []"
    if "fst (check_markets_or_update w s) = Inl e" for e
    using that c by (simp add: place_order_def)
  show "self_markets (snd (snd (place_order w s ord)))
          = self_markets (snd (check_markets_or_update w s))"
    using c by (cases r1) (auto simp: place_order_def Let_def split: sum.splits option.splits)
qed

lemma batch_order_create_gate:
  "refreshes_first w s (fst (batch_order_create w s ords)) (snd (snd (batch_order_create w s ords)))"
proof (rule refreshes_firstI)
  obtain r1 s1 where c: "check_markets_or_update w s = (r1, s1)"
    by (cases "check_markets_or_update w s")
  let ?own = "drop (length (gateway_calls (snd (check_markets_or_update w s))))
                (gateway_calls (snd (snd (batch_order_create w s ords))))"
  show "gateway_calls (snd (snd (batch_order_create w s ords)))
          = gateway_calls (snd (check_markets_or_update w s)) @ ?own"
    using c
    by (cases r1)
      (auto simp: batch_order_create_def Let_def split: prod.splits sum.splits option.splits)
  show "fst (batch_order_create w s ords) = Inl e \<and> ?own = []"
    if "fst (check_markets_or_update w s) = Inl e" for e
    using that c by (simp add: batch_order_create_def)
  show "self_markets (snd (snd (batch_order_create w s ords)))
          = self_markets (snd (check_markets_or_update w s))"
    using c
    by (cases r1)
      (auto simp: batch_order_create_def Let_def split: prod.splits sum.splits option.splits)
qed

lemma cancel_order_gate:
  assumes "active_orders s (client_order_id ord) = Some a" and "current_state a \<noteq> CANCELED"
  shows "refreshes_first w s (fst (cancel_order w s ord)) (snd (snd (cancel_order w s ord)))"
proof (rule refreshes_firstI)
  obtain r1 s1 where c: "check_markets_or_update w s = (r1, s1)"
    by (cases "check_markets_or_update w s")
  let ?own = "drop (length (gateway_calls (snd (check_markets_or_update w s))))
                (gateway_calls (snd (snd (cancel_order w s ord))))"
  show "gateway_calls (snd (snd (cancel_order w s ord)))
          = gateway_calls (snd (check_markets_or_update w s)) @ ?own"
    using c assms
    by (cases r1)
      (auto simp: cancel_order_def Let_def split: prod.splits sum.splits option.splits)
  show "fst (cancel_order w s ord) = Inl e \<and> ?own = []"
    if "fst (check_markets_or_update w s) = Inl e" for e
    using that c assms by (simp add: cancel_order_def)
  show "self_markets (snd (snd (cancel_order w s ord)))
          = self_markets (snd (check_markets_or_update w s))"
    using c assms
    by (cases r1)
      (auto simp: cancel_order_def Let_def split: prod.splits sum.splits option.splits)
qed

lemma batch_order_cancel_gate:
  "refreshes_first w s (fst (batch_order_cancel w s ords)) (snd (batch_order_cancel w s ords))"
proof (rule refreshes_firstI)
  obtain r1 s1 where c: "check_markets_or_update w s = (r1, s1)"
    by (cases "check_markets_or_update w s")
  let ?own = "drop (length (gateway_calls (snd (check_markets_or_update w s))))
                (gateway_calls (snd (batch_order_cancel w s ords)))"
  show "gateway_calls (snd (batch_order_cancel w s ords))
          = gateway_calls (snd (check_markets_or_update w s)) @ ?own"
    using c
    by (cases r1)
      (auto simp: batch_order_cancel_def Let_def split: sum.splits option.splits)
  show "fst (batch_order_cancel w s ords) = Inl e \<and> ?own = []"
    if "fst (check_markets_or_update w s) = Inl e" for e
    using that c by (simp add: batch_order_cancel_def)
  show "self_markets (snd (batch_order_cancel w s ords))
          = self_markets (snd (check_markets_or_update w s))"
    using c
    by (cases r1)
      (auto simp: batch_order_cancel_def Let_def split: sum.splits option.splits)
qed

lemma cancel_all_orders_gate:
  "refreshes_first w s (fst (cancel_all_orders w s)) (snd (cancel_all_orders w s))"
proof (rule refreshes_firstI)
  obtain r1 s1 where c: "check_markets_or_update w s = (r1, s1)"
    by (cases "check_markets_or_update w s")
  let ?own = "drop (length (gateway_calls (snd (check_markets_or_update w s))))
                (gateway_calls (snd (cancel_all_orders w s)))"
  show "gateway_calls (snd (cancel_all_orders w s))
          = gateway_calls (snd (check_markets_or_update w s)) @ ?own"
    using c
    by (cases r1)
      (auto simp: cancel_all_orders_def Let_def split: sum.splits option.splits)
  show "fst (cancel_all_orders w s) = Inl e \<and> ?own = []"
    if "fst (check_markets_or_update w s) = Inl e" for e
    using that c by (simp add: cancel_all_orders_def)
  show "self_markets (snd (cancel_all_orders w s))
          = self_markets (snd (check_markets_or_update w s))"
    using c
    by (cases r1)
      (auto simp: cancel_all_orders_def Let_def split: sum.splits option.splits)
qed

lemma get_last_traded_price_no_check:
  "self_markets (snd (get_last_traded_price w s pair)) = self_markets s"
  "\<exists>request. gateway_calls (snd (get_last_traded_price w s pair))
                = gateway_calls s @ [GetClobTicker request]"
  by (simp_all add: get_last_traded_price_def Let_def split: sum.splits option.splits)

lemma get_account_balances_no_check:
  "self_markets (snd (get_account_balances w s)) = self_markets s"
  "\<forall>request. GetClobMarkets request
      \<notin> set (drop (length (gateway_calls s)) (gateway_calls (snd (get_account_balances w s))))"
  by (auto simp: get_account_balances_def Let_def split: sum.splits option.splits list.splits)

text \<open>
  C1, as the code has it. Each of \<^verbatim>\<open>place_order\<close>, \<^verbatim>\<open>batch_order_create\<close>,
  \<^verbatim>\<open>cancel_order\<close> (for a tracked order that is not \<^verbatim>\<open>CANCELED\<close>),
  \<^verbatim>\<open>batch_order_cancel\<close> and \<^verbatim>\<open>cancel_all_orders\<close> checks the market cache first:
  when the cache is not populated, the market refresh is the first request of the run,
  a refresh that raises ends the run with its exception before anything else is sent,
  and, a trading pair being configured, the cache is populated whenever the run has sent
  a request of its own. \<^verbatim>\<open>get_last_traded_price\<close> and \<^verbatim>\<open>get_account_balances\<close> make
  no such check: they leave the cache as it is and send no refresh.
\<close>

theorem market_check_precedes_order_operations:
  fixes w :: "'d world"
  shows "refreshes_first w s (fst (place_order w s ord)) (snd (snd (place_order w s ord)))
     \<and> refreshes_first w s (fst (batch_order_create w s ords))
         (snd (snd (batch_order_create w s ords)))
     \<and> (\<forall>a. active_orders s (client_order_id ord) = Some a \<and> current_state a \<noteq> CANCELED
          \<longrightarrow> refreshes_first w s (fst (cancel_order w s ord)) (snd (snd (cancel_order w s ord))))
     \<and> refreshes_first w s (fst (batch_order_cancel w s ords)) (snd (batch_order_cancel w s ords))
     \<and> refreshes_first w s (fst (cancel_all_orders w s)) (snd (cancel_all_orders w s))
     \<and> self_markets (snd (get_last_traded_price w s pair)) = self_markets s
     \<and> (\<exists>request. gateway_calls (snd (get_last_traded_price w s pair))
                     = gateway_calls s @ [GetClobTicker request])
     \<and> self_markets (snd (get_account_balances w s)) = self_markets s
     \<and> (\<forall>request. GetClobMarkets request
           \<notin> set (drop (length (gateway_calls s))
                    (gateway_calls (snd (get_account_balances w s)))))"
proof -
  have tracked: "\<forall>a. active_orders s (client_order_id ord) = Some a \<and> current_state a \<noteq> CANCELED
          \<longrightarrow> refreshes_first w s (fst (cancel_order w s ord)) (snd (snd (cancel_order w s ord)))"
  proof (rule allI, rule impI, elim conjE)
    fix a
    assume "active_orders s (client_order_id ord) = Some a" and "current_state a \<noteq> CANCELED"
    then show "refreshes_first w s (fst (cancel_order w s ord)) (snd (snd (cancel_order w s ord)))"
      by (rule cancel_order_gate)
  qed
  show ?thesis
    apply (rule conjI, rule place_order_gate)
    apply (rule conjI, rule batch_order_create_gate)
    apply (rule conjI, rule tracked)
    apply (rule conjI, rule batch_order_cancel_gate)
    apply (rule conjI, rule cancel_all_orders_gate)
    apply (rule conjI, rule get_last_traded_price_no_check)
    apply (rule conjI, rule get_last_traded_price_no_check)
    apply (rule conjI, rule get_account_balances_no_check)
    apply (rule get_account_balances_no_check)
    done
qed

theorem market_check_precedes_order_operations_witness:
  "\<not> check_markets_initialized fresh_source
   \<and> truthy (self_trading_pair fresh_source)
   \<and> (\<exists>rest. gateway_calls (snd (snd (place_order example_world fresh_source buy_order)))
                = GetClobMarkets (markets_request_of fresh_source) # rest)
   \<and> check_markets_initialized (snd (snd (place_order example_world fresh_source buy_order)))
   \<and> fst (place_order
            (example_world\<lparr>get_clob_markets := (\<lambda>_. Inl (Exn GatewayError ''gateway down''))\<rparr>)
            fresh_source buy_order)
     = Inl (Exn GatewayError ''gateway down'')
   \<and> (\<exists>rest. gateway_calls
                 (snd (snd (cancel_order example_world
                              (fresh_source\<lparr>active_orders := [client_order_id buy_order \<mapsto> buy_order]\<rparr>)
                              buy_order)))
                = GetClobMarkets (markets_request_of fresh_source) # rest)"
proof -
  let ?down = "example_world\<lparr>get_clob_markets := (\<lambda>_. Inl (Exn GatewayError ''gateway down''))\<rparr>"
  let ?tracking = "fresh_source\<lparr>active_orders := [client_order_id buy_order \<mapsto> buy_order]\<rparr>"
  have empty: "\<not> check_markets_initialized fresh_source" "\<not> check_markets_initialized ?tracking"
    by (simp_all add: check_markets_initialized_def fresh_source_def init_def)
  have pair: "truthy (self_trading_pair fresh_source)"
    by (simp add: truthy_def fresh_source_def init_def)
  have log: "gateway_calls fresh_source = []" "gateway_calls ?tracking = []"
    by (simp_all add: fresh_source_def init_def)
  have request: "markets_request_of ?tracking = markets_request_of fresh_source"
    by (simp add: markets_request_of_def)
  have placed: "\<exists>c \<in> set (drop (length (gateway_calls fresh_source))
                        (gateway_calls (snd (snd (place_order example_world fresh_source buy_order))))).
                  \<forall>request. c \<noteq> GetClobMarkets request"
    by (simp add: place_order_def cache_defs example_defs invalid_hash_def Let_def)
  have fails: "fst (update_markets ?down fresh_source) = Inl (Exn GatewayError ''gateway down'')"
    by (simp add: update_markets_def)
  have tracked: "active_orders ?tracking (client_order_id buy_order) = Some buy_order
                 \<and> current_state buy_order \<noteq> CANCELED"
    by (simp add: buy_order_def)
  note place =
    market_check_precedes_order_operations
      [where w = example_world and s = fresh_source and ord = buy_order and ords = "[]"
         and pair = "''KUJI-USK''", THEN conjunct1]
  from place [THEN conjunct1] empty(1) log(1)
  have a: "\<exists>rest. gateway_calls (snd (snd (place_order example_world fresh_source buy_order)))
                = GetClobMarkets (markets_request_of fresh_source) # rest"
    by auto
  from place [THEN conjunct2] pair placed
  have b: "check_markets_initialized (snd (snd (place_order example_world fresh_source buy_order)))"
    by blast
  note place_down =
    market_check_precedes_order_operations
      [where w = ?down and s = fresh_source and ord = buy_order and ords = "[]"
         and pair = "''KUJI-USK''", THEN conjunct1, THEN conjunct1]
  from place_down empty(1) fails
  have c: "fst (place_order ?down fresh_source buy_order) = Inl (Exn GatewayError ''gateway down'')"
    by auto
  note cancel =
    market_check_precedes_order_operations
      [where w = example_world and s = ?tracking and ord = buy_order and ords = "[]"
         and pair = "''KUJI-USK''", THEN conjunct2, THEN conjunct2, THEN conjunct1]
  from cancel tracked
  have "refreshes_first example_world ?tracking
          (fst (cancel_order example_world ?tracking buy_order))
          (snd (snd (cancel_order example_world ?tracking buy_order)))"
    by blast
  from this [THEN conjunct1] empty(2) log(2) request
  have d: "\<exists>rest. gateway_calls (snd (snd (cancel_order example_world ?tracking buy_order)))
                = GetClobMarkets (markets_request_of fresh_source) # rest"
    by auto
  from empty pair a b c d show ?thesis by simp
qed

text \<open>
  The claim that every pricing and balance operation populates the cache first fails:
  on a data source that has cached nothing, \<^verbatim>\<open>get_last_traded_price\<close> and
  \<^verbatim>\<open>get_account_balances\<close> send their one request and return, the cache still empty.
\<close>

theorem market_check_every_operation_counterexample:
  "\<not> check_markets_initialized fresh_source
   \<and> get_last_traded_price example_world fresh_source ''KUJI-USK''
     = (Inr (77 / 125),
        fresh_source
          \<lparr>gateway_calls :=
             [GetClobTicker \<lparr> tk_connector = ''kujira'', tk_chain = ''kujira'',
                              tk_network = ''mainnet'', tk_trading_pair = Some ''KUJI-USK'' \<rparr>]\<rparr>)
   \<and> \<not> check_markets_initialized (snd (get_last_traded_price example_world fresh_source ''KUJI-USK''))
   \<and> fst (get_account_balances example_world fresh_source)
     = Inr [(''KUJI'', [(''total_balance'', ''10''), (''available_balance'', ''10'')]),
            (''USK'', [(''total_balance'', ''20''), (''available_balance'', ''20'')])]
   \<and> gateway_calls (snd (get_account_balances example_world fresh_source))
     = [GetBalances \<lparr> gb_chain = ''kujira'', gb_network = ''mainnet'',
                      gb_address = ''kujira1yrensec9gzl7y3t3duz44efzgwj2qv6gwayrn7'',
                      gb_connector = ''kujira'',
                      gb_token_symbols = [''KUJI'', ''USK'', ''KUJI''] \<rparr>]
   \<and> \<not> check_markets_initialized (snd (get_account_balances example_world fresh_source))"
  by (simp add: get_last_traded_price_def get_account_balances_def check_markets_initialized_def
        truthy_def send_def example_defs)

end
